theory Spec2Isabelle
  imports Complex_Main "HOL-Library.Log_Nat"
begin

section \<open>The session state machine of the Monad testnet trading bot\<close>

text \<open>
  The development embeds the bot's orchestration file (the handlers registered on the
  Telegram client, the two module-level maps \<open>userWallets\<close> and \<open>userSessions\<close>)
  together with the parts of \<open>walletUtils\<close>, \<open>uniswapUtils\<close> and \<open>errorHandler\<close>
  the handlers call. A handler is a function from the state of the two maps (and the
  list of chat calls attempted so far) to the state after it. The blockchain, the
  explorer API, the key library and the Telegram client are inputs: a record of
  answers, one per call site, each with a failure answer.

  Conventions of the embedding:
  \<^item> a JavaScript string is a list of code units below 256; \<open>undefined\<close> is \<open>None\<close>;
  \<^item> a JavaScript number is a binary64 value: a rational that is representable, an
    infinity or NaN; every arithmetic result is rounded to nearest, ties to even.
    The sign of zero is not represented (no handler distinguishes \<open>-0\<close> from \<open>0\<close>);
  \<^item> every call on the Telegram client (\<open>sendMessage\<close>, \<open>editMessageText\<close>,
    \<open>deleteMessage\<close>, \<open>answerCallbackQuery\<close>) is recorded with its outcome: it
    returns, or its promise rejects and the \<open>await\<close> throws; message texts are kept as
    tags carrying the interpolated values;
  \<^item> a handler runs from its call to its return without another event in between.
\<close>

subsection \<open>JavaScript strings\<close>

definition is_digit :: "char \<Rightarrow> bool" where
  "is_digit c = (c \<in> set ''0123456789'')"

definition is_hex :: "char \<Rightarrow> bool" where
  "is_hex c = (c \<in> set ''0123456789abcdefABCDEF'')"

text \<open>White space and line terminators with a code unit below 256.\<close>

definition is_ws :: "char \<Rightarrow> bool" where
  "is_ws c = (c \<in> set [CHR 0x09, CHR 0x0A, CHR 0x0B, CHR 0x0C, CHR 0x0D, CHR 0x20, CHR 0xA0])"

definition trimStart :: "string \<Rightarrow> string" where
  "trimStart s = dropWhile is_ws s"

definition trim :: "string \<Rightarrow> string" where
  "trim s = rev (dropWhile is_ws (rev (dropWhile is_ws s)))"

definition startsWith :: "string \<Rightarrow> string \<Rightarrow> bool" where
  "startsWith s p = (take (length p) s = p)"

text \<open>\<open>s.split(c)\<close> for a one-character separator, and indexing that may be \<open>undefined\<close>.\<close>

fun split_on :: "char \<Rightarrow> string \<Rightarrow> string list" where
  "split_on c [] = [[]]"
| "split_on c (x # xs) =
     (if x = c then [] # split_on c xs
      else (case split_on c xs of [] \<Rightarrow> [[x]] | y # ys \<Rightarrow> (x # y) # ys))"

definition index_opt :: "'a list \<Rightarrow> nat \<Rightarrow> 'a option" where
  "index_opt xs i = (if i < length xs then Some (xs ! i) else None)"

definition digit_val :: "char \<Rightarrow> nat" where
  "digit_val c = of_char c - 48"

definition hex_digit_val :: "char \<Rightarrow> nat" where
  "hex_digit_val c =
     (if is_digit c then of_char c - 48
      else if c \<in> set ''abcdef'' then of_char c - 87
      else of_char c - 55)"

definition digits_val :: "string \<Rightarrow> nat" where
  "digits_val s = foldl (\<lambda>acc c. 10 * acc + digit_val c) 0 s"

definition hex_val :: "string \<Rightarrow> nat" where
  "hex_val s = foldl (\<lambda>acc c. 16 * acc + hex_digit_val c) 0 s"

definition digit_char :: "nat \<Rightarrow> char" where
  "digit_char n = ''0123456789'' ! (n mod 10)"

fun string_of_nat :: "nat \<Rightarrow> string" where
  "string_of_nat n =
     (if n < 10 then [digit_char n] else string_of_nat (n div 10) @ [digit_char n])"

declare string_of_nat.simps [simp del]

text \<open>The test \<open>/^0x[a-fA-F0-9]{40}$/\<close>.\<close>

definition is_address :: "string \<Rightarrow> bool" where
  "is_address s = (length s = 42 \<and> take 2 s = ''0x'' \<and> list_all is_hex (drop 2 s))"

subsection \<open>JavaScript numbers\<close>

datatype jsnum = NaN | Finite rat | PosInfinity | NegInfinity

definition pow2 :: "int \<Rightarrow> rat" where
  "pow2 e = (if 0 \<le> e then 2 ^ nat e else 1 / 2 ^ nat (- e))"

definition pow10 :: "int \<Rightarrow> rat" where
  "pow10 e = (if 0 \<le> e then 10 ^ nat e else 1 / 10 ^ nat (- e))"

text \<open>For \<open>a > 0\<close>, the integer \<open>l\<close> with \<open>2 ^ l \<le> a < 2 ^ (l + 1)\<close>.\<close>

definition ilog2 :: "rat \<Rightarrow> int" where
  "ilog2 a = (case quotient_of a of (n, d) \<Rightarrow>
     (let l = bitlen n - bitlen d in if pow2 l \<le> a then l else l - 1))"

definition round_half_even :: "rat \<Rightarrow> int" where
  "round_half_even x =
     (let f = \<lfloor>x\<rfloor>; d = x - of_int f
      in if d < 1 / 2 then f else if 1 / 2 < d then f + 1
         else if even f then f else f + 1)"

text \<open>
  Rounding a rational to binary64: 53 significant bits, exponents of the least
  significant bit from \<open>-1074\<close> (subnormal numbers) up, overflow to an infinity.
\<close>

definition to_double :: "rat \<Rightarrow> jsnum" where
  "to_double q =
     (if q = 0 then Finite 0
      else let a = \<bar>q\<bar>;
               e = max (ilog2 a - 52) (- 1074);
               m = round_half_even (a / pow2 e);
               r = of_int m * pow2 e
           in if 1024 < e + bitlen m then (if q < 0 then NegInfinity else PosInfinity)
              else Finite (if q < 0 then - r else r))"

fun js_neg :: "jsnum \<Rightarrow> jsnum" where
  "js_neg NaN = NaN"
| "js_neg (Finite a) = Finite (- a)"
| "js_neg PosInfinity = NegInfinity"
| "js_neg NegInfinity = PosInfinity"

fun js_sign :: "jsnum \<Rightarrow> int" where
  "js_sign (Finite a) = sgn \<lfloor>sgn a\<rfloor>"
| "js_sign PosInfinity = 1"
| "js_sign NegInfinity = - 1"
| "js_sign NaN = 0"

fun js_mul :: "jsnum \<Rightarrow> jsnum \<Rightarrow> jsnum" where
  "js_mul NaN _ = NaN"
| "js_mul _ NaN = NaN"
| "js_mul (Finite a) (Finite b) = to_double (a * b)"
| "js_mul x y =
     (if js_sign x * js_sign y = 0 then NaN
      else if 0 < js_sign x * js_sign y then PosInfinity else NegInfinity)"

text \<open>Division; a zero divisor is \<open>+0\<close>, the only zero of this type.\<close>

fun js_div :: "jsnum \<Rightarrow> jsnum \<Rightarrow> jsnum" where
  "js_div NaN _ = NaN"
| "js_div _ NaN = NaN"
| "js_div (Finite a) (Finite b) =
     (if b = 0 then (if a = 0 then NaN else if 0 < a then PosInfinity else NegInfinity)
      else to_double (a / b))"
| "js_div (Finite a) _ = Finite 0"
| "js_div x (Finite b) =
     (if 0 \<le> js_sign x * (if b < 0 then - 1 else 1) then PosInfinity else NegInfinity)"
| "js_div _ _ = NaN"

text \<open>The comparisons; each is false when an operand is NaN.\<close>

fun js_lt :: "jsnum \<Rightarrow> jsnum \<Rightarrow> bool" where
  "js_lt NaN _ = False"
| "js_lt _ NaN = False"
| "js_lt (Finite a) (Finite b) = (a < b)"
| "js_lt NegInfinity NegInfinity = False"
| "js_lt NegInfinity _ = True"
| "js_lt _ NegInfinity = False"
| "js_lt PosInfinity _ = False"
| "js_lt _ PosInfinity = True"

definition js_gt :: "jsnum \<Rightarrow> jsnum \<Rightarrow> bool" where
  "js_gt x y = js_lt y x"

definition js_le :: "jsnum \<Rightarrow> jsnum \<Rightarrow> bool" where
  "js_le x y = (x \<noteq> NaN \<and> y \<noteq> NaN \<and> \<not> js_lt y x)"

definition isNaN :: "jsnum \<Rightarrow> bool" where
  "isNaN x = (x = NaN)"

subsubsection \<open>parseFloat and parseInt\<close>

text \<open>
  The value of the longest \<open>ExponentPart\<close> (\<open>e\<close> or \<open>E\<close>, an optional sign, digits)
  that starts the string, and \<open>0\<close> when there is none.
\<close>

definition exponent_part :: "string \<Rightarrow> int" where
  "exponent_part s =
     (if s \<noteq> [] \<and> (hd s = CHR ''e'' \<or> hd s = CHR ''E'') then
        (let r = tl s in
         if r \<noteq> [] \<and> hd r = CHR ''-'' then - int (digits_val (takeWhile is_digit (tl r)))
         else if r \<noteq> [] \<and> hd r = CHR ''+'' then int (digits_val (takeWhile is_digit (tl r)))
         else int (digits_val (takeWhile is_digit r)))
      else 0)"

text \<open>
  The longest prefix that is a \<open>StrUnsignedDecimalLiteral\<close>: \<open>Infinity\<close>, digits with an
  optional fraction and exponent, or a fraction that starts with the point.
\<close>

definition parse_unsigned :: "string \<Rightarrow> jsnum" where
  "parse_unsigned s =
     (if take 8 s = ''Infinity'' then PosInfinity
      else let ip = takeWhile is_digit s; r1 = dropWhile is_digit s in
        if ip \<noteq> [] then
          (if r1 \<noteq> [] \<and> hd r1 = CHR ''.'' then
             (let fp = takeWhile is_digit (tl r1); r2 = dropWhile is_digit (tl r1)
              in to_double (of_nat (digits_val (ip @ fp))
                            * pow10 (exponent_part r2 - int (length fp))))
           else to_double (of_nat (digits_val ip) * pow10 (exponent_part r1)))
        else if s \<noteq> [] \<and> hd s = CHR ''.'' \<and> takeWhile is_digit (tl s) \<noteq> [] then
          (let fp = takeWhile is_digit (tl s); r2 = dropWhile is_digit (tl s)
           in to_double (of_nat (digits_val fp) * pow10 (exponent_part r2 - int (length fp))))
        else NaN)"

definition parseFloat :: "string \<Rightarrow> jsnum" where
  "parseFloat s =
     (let t = trimStart s in
      if t \<noteq> [] \<and> hd t = CHR ''-'' then js_neg (parse_unsigned (tl t))
      else if t \<noteq> [] \<and> hd t = CHR ''+'' then parse_unsigned (tl t)
      else parse_unsigned t)"

text \<open>\<open>parseInt\<close> without a radix: decimal, or hexadecimal after \<open>0x\<close>.\<close>

definition parseInt :: "string \<Rightarrow> jsnum" where
  "parseInt s =
     (let t = trimStart s;
          neg = (t \<noteq> [] \<and> hd t = CHR ''-'');
          u = (if t \<noteq> [] \<and> (hd t = CHR ''+'' \<or> hd t = CHR ''-'') then tl t else t);
          hex = (take 2 u = ''0x'' \<or> take 2 u = ''0X'');
          z = (if hex then takeWhile is_hex (drop 2 u) else takeWhile is_digit u);
          v = (if hex then hex_val z else digits_val z)
      in if z = [] then NaN
         else to_double (if neg then - of_nat v else of_nat v))"

subsubsection \<open>Number to string\<close>

text \<open>For \<open>a > 0\<close> of binary64 magnitude, the integer \<open>l\<close> with \<open>10 ^ l \<le> a < 10 ^ (l + 1)\<close>.\<close>

definition ilog10 :: "rat \<Rightarrow> int" where
  "ilog10 a =
     (let est = (ilog2 a * 30103) div 100000
      in if a < pow10 est then est - 1 else if pow10 (est + 1) \<le> a then est + 1 else est)"

text \<open>
  \<open>Number::toString\<close> picks the least number \<open>k\<close> of digits for which some \<open>k\<close>-digit
  integer \<open>s\<close> and exponent \<open>n\<close> give \<open>s * 10 ^ (n - k)\<close> the same binary64 value as
  \<open>x\<close>; among several \<open>s\<close> the one nearest to \<open>x\<close>, and of two equally near the even
  one. With \<open>10 ^ (n - 1) \<le> x < 10 ^ n\<close> the candidates for \<open>k\<close> digits are the two
  integers around \<open>x / 10 ^ (n - k)\<close>. Seventeen digits always suffice.
\<close>

definition candidates :: "nat \<Rightarrow> rat \<Rightarrow> int \<Rightarrow> nat \<times> nat" where
  "candidates k x n = (let lo = nat \<lfloor>x / pow10 (n - int k)\<rfloor> in (lo, lo + 1))"

definition nearest_candidate :: "nat \<Rightarrow> rat \<Rightarrow> int \<Rightarrow> nat" where
  "nearest_candidate k x n =
     (case candidates k x n of (lo, hi) \<Rightarrow>
        (let dl = x - of_nat lo * pow10 (n - int k);
             dh = of_nat hi * pow10 (n - int k) - x
         in if dl < dh then lo else if dh < dl then hi else if even lo then lo else hi))"

definition valid_candidate :: "nat \<Rightarrow> rat \<Rightarrow> int \<Rightarrow> nat option" where
  "valid_candidate k x n =
     (case candidates k x n of (lo, hi) \<Rightarrow>
        (let ok_lo = (to_double (of_nat lo * pow10 (n - int k)) = Finite x);
             ok_hi = (to_double (of_nat hi * pow10 (n - int k)) = Finite x)
         in if ok_lo \<and> ok_hi then Some (nearest_candidate k x n)
            else if ok_lo then Some lo
            else if ok_hi then Some hi
            else None))"

fun shortest_digits :: "nat \<Rightarrow> nat \<Rightarrow> rat \<Rightarrow> int \<Rightarrow> nat" where
  "shortest_digits 0 k x n = nearest_candidate k x n"
| "shortest_digits (Suc fuel) k x n =
     (case valid_candidate k x n of
        Some s \<Rightarrow> s
      | None \<Rightarrow> shortest_digits fuel (Suc k) x n)"


text \<open>The digits \<open>ds\<close> of \<open>s\<close> and the exponent \<open>n\<close>, laid out as \<open>Number::toString\<close> does.\<close>

definition layout_digits :: "string \<Rightarrow> int \<Rightarrow> string" where
  "layout_digits ds n =
     (let k = int (length ds) in
      if k \<le> n \<and> n \<le> 21 then ds @ replicate (nat (n - k)) CHR ''0''
      else if 0 < n \<and> n \<le> 21 then take (nat n) ds @ ''.'' @ drop (nat n) ds
      else if - 6 < n \<and> n \<le> 0 then ''0.'' @ replicate (nat (- n)) CHR ''0'' @ ds
      else (if k = 1 then ds else [hd ds] @ ''.'' @ tl ds)
           @ ''e'' @ (if n - 1 < 0 then ''-'' else ''+'') @ string_of_nat (nat \<bar>n - 1\<bar>))"

text \<open>
  When the upper candidate is a power of ten its digits are written as \<open>1\<close> with the
  exponent raised by one; trailing zeros of \<open>s\<close> never occur otherwise, since a shorter
  \<open>s\<close> would have been found first.
\<close>

definition positive_toString :: "rat \<Rightarrow> string" where
  "positive_toString x =
     (let n = ilog10 x + 1;
          ds = string_of_nat (shortest_digits 16 1 x n);
          z = length (takeWhile (\<lambda>c. c = CHR ''0'') (rev ds))
      in if z = 0 then layout_digits ds n
         else layout_digits (take (length ds - z) ds) (n + 1))"

definition toString :: "jsnum \<Rightarrow> string" where
  "toString v =
     (case v of
        NaN \<Rightarrow> ''NaN''
      | PosInfinity \<Rightarrow> ''Infinity''
      | NegInfinity \<Rightarrow> ''-Infinity''
      | Finite x \<Rightarrow>
          if x = 0 then ''0''
          else if x < 0 then ''-'' @ positive_toString (- x)
          else positive_toString x)"

text \<open>
  \<open>Number.prototype.toFixed(f)\<close>: the integer \<open>n\<close> nearest to \<open>x * 10 ^ f\<close> (the larger
  of two equally near), written with \<open>f\<close> digits after the point.
\<close>

definition fixed_units :: "nat \<Rightarrow> rat \<Rightarrow> nat" where
  "fixed_units f a = nat \<lfloor>a * 10 ^ f + 1 / 2\<rfloor>"

definition fixed_layout :: "nat \<Rightarrow> nat \<Rightarrow> string" where
  "fixed_layout f n =
     (let m = string_of_nat n in
      if f = 0 then m
      else let z = (if length m \<le> f then replicate (f + 1 - length m) CHR ''0'' @ m else m)
           in take (length z - f) z @ ''.'' @ drop (length z - f) z)"

definition toFixed :: "nat \<Rightarrow> jsnum \<Rightarrow> string" where
  "toFixed f v =
     (case v of
        Finite x \<Rightarrow>
          (if x < 0 then ''-'' else [])
          @ (if 10 ^ 21 \<le> \<bar>x\<bar> then positive_toString \<bar>x\<bar>
             else fixed_layout f (fixed_units f \<bar>x\<bar>))
      | _ \<Rightarrow> toString v)"

subsection \<open>Wallets, sessions and the chat calls\<close>

datatype exn = Error string | TypeError

record wallet =
  address :: string
  privateKey :: string
  mnemonic :: "string option"

record token_info =
  ti_address :: string
  decimals :: nat
  symbol :: string
  name :: string

text \<open>The object \<open>walletUtils.getTokenBalance\<close> returns: the token's data and the balance.\<close>

record token_balance = token_info +
  balance :: string

record token_details =
  marketCap :: "string option"
  price :: "string option"

datatype sstate =
    WALLET_MENU | IMPORT_PRIVATE_KEY | IMPORT_MNEMONIC
  | BUY_TOKEN | BUY_AMOUNT | BUY_CUSTOM_AMOUNT
  | SELL_TOKEN | SELL_AMOUNT | SELL_CUSTOM_AMOUNT

text \<open>
  A session object; a property that was never assigned is \<open>None\<close>. The handlers assign
  to \<open>state\<close> only the nine literals above.
\<close>

record session =
  state :: "sstate option"
  tokenAddress :: "string option"
  tokenInfo :: "token_info option"
  tokenBalance :: "string option"
  monAmount :: "string option"
  tokenAmount :: "string option"

text \<open>
  The texts the bot sends. The entries of \<open>ERROR_MESSAGES\<close> keep their keys; the other
  texts are named by their first words and carry the values interpolated into them.
\<close>

datatype reply =
    WALLET_NOT_FOUND | INVALID_ADDRESS | INVALID_PRIVATE_KEY | INVALID_MNEMONIC
  | INVALID_AMOUNT
  | INSUFFICIENT_BALANCE string
  | Welcome | HelpText | SelectAnOption
  | NewWalletCreated wallet | WalletImported string
  | YourPrivateKey string | WalletDeleted
  | EnterPrivateKey | EnterMnemonic | OperationCancelled
  | FetchingBalance | WalletBalance string string "(string \<times> string \<times> string) list"
  | ErrorFetchingBalance exn
  | FetchingWallet | YourWallet string string | ErrorFetchingWallet exn
  | EnterTokenToBuy string | EnterTokenToSell
  | FetchingToken | TokenFound token_info token_details string string
  | ErrorFetchingToken exn
  | RefreshingToken | TokenDetails token_info token_details string
  | ErrorRefreshingToken exn
  | HowMuchToSpend token_info string
  | HowMuchToSell token_info string
  | NoTokensToSell string
  | EnterMonAmount | EnterTokenAmount string "string option"
  | AboutToBuy string "string option"
  | AboutToSell string string "jsnum option"
  | ProcessingPurchase string "string option"
  | PurchaseSuccessful string "string option" string
  | ProcessingSale "string option" string
  | SaleSuccessful "string option" string string
  | TransactionFailed exn
  | ErrorNotice exn

datatype call =
    sendMessage reply
  | editMessageText reply
  | deleteMessage
  | answerCallbackQuery

text \<open>
  The module's two maps, keyed by user id, and the calls attempted on the client: each
  with \<open>None\<close> when it returned, or the message of the rejection.
\<close>

record bot =
  userWallets :: "string \<rightharpoonup> wallet"
  userSessions :: "string \<rightharpoonup> session"
  calls :: "(call \<times> string option) list"

text \<open>\<open>userSessions[userId] = {state: ...}\<close>, \<open>delete userSessions[userId]\<close>.\<close>

definition new_session :: "sstate \<Rightarrow> session" where
  "new_session st =
     \<lparr>state = Some st, tokenAddress = None, tokenInfo = None, tokenBalance = None,
      monAmount = None, tokenAmount = None\<rparr>"

definition set_session :: "string \<Rightarrow> session \<Rightarrow> bot \<Rightarrow> bot" where
  "set_session uid s b = b\<lparr>userSessions := (userSessions b)(uid \<mapsto> s)\<rparr>"

definition delete_session :: "string \<Rightarrow> bot \<Rightarrow> bot" where
  "delete_session uid b = b\<lparr>userSessions := (userSessions b)(uid := None)\<rparr>"

text \<open>\<open>userSessions[userId] && userSessions[userId].state\<close>, as an option.\<close>

definition session_state :: "bot \<Rightarrow> string \<Rightarrow> sstate option" where
  "session_state b uid = (case userSessions b uid of None \<Rightarrow> None | Some s \<Rightarrow> state s)"

subsection \<open>The collaborators\<close>

text \<open>
  What the chain, the explorer, the key library and the Telegram client answer. A
  contract or provider call either returns or fails with a message (\<open>Inl\<close>). \<open>erc20\<close> is
  the answer of \<open>decimals()\<close>, \<open>symbol()\<close> and \<open>name()\<close> at a token address, \<open>balanceOf\<close>
  takes the token and the owner, \<open>provider_getBalance\<close> is in wei. \<open>swap_buy\<close> and
  \<open>swap_sell\<close> are the bodies of \<open>buyToken\<close> and \<open>sellToken\<close> (key, token address,
  amount): the hash of the mined transaction, or the message of whatever failed on the
  way. \<open>telegram\<close> answers a call on the client, given the calls attempted before it:
  \<open>None\<close> when the call returns, the message of the error when its promise rejects.
\<close>

record env =
  erc20 :: "string \<Rightarrow> string + nat \<times> string \<times> string"
  balanceOf :: "string \<Rightarrow> string \<Rightarrow> string + nat"
  provider_getBalance :: "string \<Rightarrow> string + nat"
  swap_buy :: "string \<Rightarrow> string option \<Rightarrow> string option \<Rightarrow> string + string"
  swap_sell :: "string \<Rightarrow> string option \<Rightarrow> string option \<Rightarrow> string + string"
  scan_token :: "string \<Rightarrow> token_details"
  scan_wallet :: "string \<Rightarrow> (string \<times> string \<times> string) list"
  createRandom :: wallet
  fromPrivateKey :: "string \<Rightarrow> string + wallet"
  fromMnemonic :: "string \<Rightarrow> string + wallet"
  telegram :: "(call \<times> string option) list \<Rightarrow> call \<Rightarrow> string option"

text \<open>
  \<open>ethers.utils.formatUnits\<close> of a \<open>uint256\<close>: whole part, point, fraction padded to
  \<open>d\<close> digits with the trailing zeros dropped but for one; no point when \<open>d = 0\<close>.
\<close>

definition formatUnits :: "nat \<Rightarrow> nat \<Rightarrow> string" where
  "formatUnits v d =
     (let whole = string_of_nat (v div 10 ^ d);
          f0 = string_of_nat (v mod 10 ^ d);
          f1 = replicate (d - length f0) CHR ''0'' @ f0;
          f2 = rev (dropWhile (\<lambda>c. c = CHR ''0'') (rev f1));
          fraction = (if f2 = [] then ''0'' else f2)
      in if d = 0 then whole else whole @ ''.'' @ fraction)"

text \<open>\<open>uniswapUtils\<close>.\<close>

definition getTokenInfo :: "env \<Rightarrow> string \<Rightarrow> exn + token_info" where
  "getTokenInfo env token =
     (case erc20 env token of
        Inl m \<Rightarrow> Inl (Error (''Failed to get token info: '' @ m))
      | Inr (d, s, n) \<Rightarrow>
          Inr \<lparr>ti_address = token, decimals = d, symbol = s, name = n\<rparr>)"

definition buyToken :: "env \<Rightarrow> string \<Rightarrow> string option \<Rightarrow> string option \<Rightarrow> exn + string" where
  "buyToken env key token amount =
     (case swap_buy env key token amount of
        Inl m \<Rightarrow> Inl (Error (''Failed to buy token: '' @ m))
      | Inr txHash \<Rightarrow> Inr txHash)"

definition sellToken :: "env \<Rightarrow> string \<Rightarrow> string option \<Rightarrow> string option \<Rightarrow> exn + string" where
  "sellToken env key token amount =
     (case swap_sell env key token amount of
        Inl m \<Rightarrow> Inl (Error (''Failed to sell token: '' @ m))
      | Inr txHash \<Rightarrow> Inr txHash)"

text \<open>\<open>walletUtils\<close>; \<open>formatEther\<close> is \<open>formatUnits\<close> with 18 decimals.\<close>

definition getBalance :: "env \<Rightarrow> string \<Rightarrow> exn + string" where
  "getBalance env addr =
     (case provider_getBalance env addr of
        Inl m \<Rightarrow> Inl (Error (''Failed to get balance: '' @ m))
      | Inr wei \<Rightarrow> Inr (formatUnits wei 18))"

definition getTokenBalance :: "env \<Rightarrow> string \<Rightarrow> string \<Rightarrow> exn + token_balance" where
  "getTokenBalance env addr token =
     (case balanceOf env token addr of
        Inl m \<Rightarrow> Inl (Error (''Failed to get token balance: '' @ m))
      | Inr v \<Rightarrow>
          (case erc20 env token of
             Inl m \<Rightarrow> Inl (Error (''Failed to get token balance: '' @ m))
           | Inr (d, s, n) \<Rightarrow>
               Inr \<lparr>ti_address = token, decimals = d, symbol = s, name = n,
                    balance = formatUnits v d\<rparr>))"

definition importWalletFromPrivateKey :: "env \<Rightarrow> string \<Rightarrow> exn + wallet" where
  "importWalletFromPrivateKey env key =
     (case fromPrivateKey env key of
        Inl m \<Rightarrow> Inl (Error (''Invalid private key: '' @ m))
      | Inr w \<Rightarrow> Inr \<lparr>address = address w, privateKey = privateKey w, mnemonic = None\<rparr>)"

definition importWalletFromMnemonic :: "env \<Rightarrow> string \<Rightarrow> exn + wallet" where
  "importWalletFromMnemonic env phrase =
     (case fromMnemonic env phrase of
        Inl m \<Rightarrow> Inl (Error (''Invalid mnemonic phrase: '' @ m))
      | Inr w \<Rightarrow> Inr w)"

subsection \<open>Awaited calls, sequencing and try/catch\<close>

text \<open>What a piece of a handler does: it completes, or throws, in the state it reached.\<close>

datatype outcome = Returned | Thrown exn

text \<open>\<open>await bot.<call>(...)\<close>: the attempt is recorded; a rejection throws.\<close>

definition chat :: "env \<Rightarrow> call \<Rightarrow> bot \<Rightarrow> outcome \<times> bot" where
  "chat env c b =
     (case telegram env (calls b) c of
        None \<Rightarrow> (Returned, b\<lparr>calls := calls b @ [(c, None)]\<rparr>)
      | Some m \<Rightarrow> (Thrown (Error m), b\<lparr>calls := calls b @ [(c, Some m)]\<rparr>))"

text \<open>Statements in sequence: what follows runs only when what precedes completed.\<close>

definition and_then ::
    "outcome \<times> bot \<Rightarrow> (bot \<Rightarrow> outcome \<times> bot) \<Rightarrow> outcome \<times> bot" where
  "and_then r k = (case r of (Returned, b) \<Rightarrow> k b | (Thrown e, b) \<Rightarrow> (Thrown e, b))"

text \<open>\<open>try { r } catch (error) { h }\<close>.\<close>

definition try_catch ::
    "outcome \<times> bot \<Rightarrow> (exn \<Rightarrow> bot \<Rightarrow> outcome \<times> bot) \<Rightarrow> outcome \<times> bot" where
  "try_catch r h = (case r of (Returned, b) \<Rightarrow> (Returned, b) | (Thrown e, b) \<Rightarrow> h e b)"

text \<open>
  \<open>errorHandler\<close>: a handler that throws is logged, and the sender is told when the
  handler's first argument has a \<open>chat.id\<close> (a message has, a callback query has not).
  That send is not awaited: its outcome is recorded and nothing depends on it.
\<close>

definition asyncErrorHandler ::
    "bool \<Rightarrow> env \<Rightarrow> (bot \<Rightarrow> outcome \<times> bot) \<Rightarrow> bot \<Rightarrow> bot" where
  "asyncErrorHandler has_chat env fn b =
     (case fn b of
        (Returned, b') \<Rightarrow> b'
      | (Thrown e, b') \<Rightarrow>
          if has_chat then snd (chat env (sendMessage (ErrorNotice e)) b') else b')"

subsection \<open>Command handlers\<close>

text \<open>
  Each handler of the source is \<open>asyncErrorHandler\<close> applied to an async function; the
  function is named \<open>..._async\<close> here. The first argument after the collaborators is the
  user id (\<open>msg.from.id.toString()\<close>), the next the message text or callback data.
\<close>

definition handleStart :: "env \<Rightarrow> bot \<Rightarrow> bot" where
  "handleStart env = asyncErrorHandler True env (chat env (sendMessage Welcome))"

definition handleHelp :: "env \<Rightarrow> bot \<Rightarrow> bot" where
  "handleHelp env = asyncErrorHandler True env (chat env (sendMessage HelpText))"

definition handleCreateWallet :: "env \<Rightarrow> string \<Rightarrow> bot \<Rightarrow> bot" where
  "handleCreateWallet env uid =
     asyncErrorHandler True env (\<lambda>b.
       chat env (sendMessage SelectAnOption) (set_session uid (new_session WALLET_MENU) b))"

definition handleCreateNewWallet :: "env \<Rightarrow> string \<Rightarrow> bot \<Rightarrow> bot" where
  "handleCreateNewWallet env uid =
     asyncErrorHandler True env (\<lambda>b.
       (let w = createRandom env
        in chat env (sendMessage (NewWalletCreated w))
             (b\<lparr>userWallets := (userWallets b)(uid \<mapsto> w)\<rparr>)))"

definition handleBalance_async :: "env \<Rightarrow> string \<Rightarrow> bot \<Rightarrow> outcome \<times> bot" where
  "handleBalance_async env uid b =
     (case userWallets b uid of
        None \<Rightarrow> chat env (sendMessage WALLET_NOT_FOUND) b
      | Some w \<Rightarrow>
          and_then (chat env (sendMessage FetchingBalance) b) (\<lambda>b1.
            try_catch
              (case getBalance env (address w) of
                 Inl e \<Rightarrow> (Thrown e, b1)
               | Inr monBalance \<Rightarrow>
                   chat env (editMessageText
                     (WalletBalance (address w) monBalance (scan_wallet env (address w)))) b1)
              (\<lambda>e. chat env (editMessageText (ErrorFetchingBalance e)))))"

definition handleBalance :: "env \<Rightarrow> string \<Rightarrow> bot \<Rightarrow> bot" where
  "handleBalance env uid = asyncErrorHandler True env (handleBalance_async env uid)"

definition handleBuy_async :: "env \<Rightarrow> string \<Rightarrow> bot \<Rightarrow> outcome \<times> bot" where
  "handleBuy_async env uid b =
     (case userWallets b uid of
        None \<Rightarrow> chat env (sendMessage WALLET_NOT_FOUND) b
      | Some w \<Rightarrow>
          (case getBalance env (address w) of
             Inl e \<Rightarrow> (Thrown e, b)
           | Inr monBalance \<Rightarrow>
               if js_le (parseFloat monBalance) (Finite 0)
               then chat env (sendMessage (INSUFFICIENT_BALANCE monBalance)) b
               else chat env (sendMessage (EnterTokenToBuy monBalance))
                      (set_session uid (new_session BUY_TOKEN) b)))"

definition handleBuy :: "env \<Rightarrow> string \<Rightarrow> bot \<Rightarrow> bot" where
  "handleBuy env uid = asyncErrorHandler True env (handleBuy_async env uid)"

definition handleSell_async :: "env \<Rightarrow> string \<Rightarrow> bot \<Rightarrow> outcome \<times> bot" where
  "handleSell_async env uid b =
     (case userWallets b uid of
        None \<Rightarrow> chat env (sendMessage WALLET_NOT_FOUND) b
      | Some w \<Rightarrow>
          chat env (sendMessage EnterTokenToSell) (set_session uid (new_session SELL_TOKEN) b))"

definition handleSell :: "env \<Rightarrow> string \<Rightarrow> bot \<Rightarrow> bot" where
  "handleSell env uid = asyncErrorHandler True env (handleSell_async env uid)"

text \<open>The two handlers for the wallet view differ in their texts only.\<close>

definition handleMyWallet_async :: "env \<Rightarrow> string \<Rightarrow> bot \<Rightarrow> outcome \<times> bot" where
  "handleMyWallet_async env uid b =
     (case userWallets b uid of
        None \<Rightarrow> chat env (sendMessage WALLET_NOT_FOUND) b
      | Some w \<Rightarrow>
          and_then (chat env (sendMessage FetchingWallet) b) (\<lambda>b1.
            try_catch
              (case getBalance env (address w) of
                 Inl e \<Rightarrow> (Thrown e, b1)
               | Inr monBalance \<Rightarrow>
                   chat env (editMessageText (YourWallet (address w) monBalance)) b1)
              (\<lambda>e. chat env (editMessageText (ErrorFetchingWallet e)))))"

definition handleMyWallet :: "env \<Rightarrow> string \<Rightarrow> bot \<Rightarrow> bot" where
  "handleMyWallet env uid = asyncErrorHandler True env (handleMyWallet_async env uid)"

definition handleMyWalletImplementation :: "env \<Rightarrow> string \<Rightarrow> bot \<Rightarrow> bot" where
  "handleMyWalletImplementation env uid =
     asyncErrorHandler True env (handleMyWallet_async env uid)"

subsection \<open>Token lookup without a flow\<close>

text \<open>\<open>tokenBalance && tokenBalance.balance ? tokenBalance.balance : '0'\<close>.\<close>

definition formattedBalance :: "token_balance \<Rightarrow> string" where
  "formattedBalance tb = (if balance tb = [] then ''0'' else balance tb)"

definition handleContractAddressInput_async ::
    "env \<Rightarrow> string \<Rightarrow> string \<Rightarrow> bot \<Rightarrow> outcome \<times> bot" where
  "handleContractAddressInput_async env uid token b =
     (case userWallets b uid of
        None \<Rightarrow> chat env (sendMessage WALLET_NOT_FOUND) b
      | Some w \<Rightarrow>
          and_then (chat env (sendMessage FetchingToken) b) (\<lambda>b1.
            try_catch
              (case getTokenInfo env token of
                 Inl e \<Rightarrow> (Thrown e, b1)
               | Inr ti \<Rightarrow>
                   (case getTokenBalance env (address w) token of
                      Inl e \<Rightarrow> (Thrown e, b1)
                    | Inr tb \<Rightarrow>
                        (case getBalance env (address w) of
                           Inl e \<Rightarrow> (Thrown e, b1)
                         | Inr monBalance \<Rightarrow>
                             chat env (editMessageText
                               (TokenFound ti (scan_token env token) (formattedBalance tb)
                                  monBalance)) b1)))
              (\<lambda>e. chat env (editMessageText (ErrorFetchingToken e)))))"

definition handleContractAddressInput :: "env \<Rightarrow> string \<Rightarrow> string \<Rightarrow> bot \<Rightarrow> bot" where
  "handleContractAddressInput env uid token =
     asyncErrorHandler True env (handleContractAddressInput_async env uid token)"

definition handleRefreshToken_async ::
    "env \<Rightarrow> string \<Rightarrow> string \<Rightarrow> bot \<Rightarrow> outcome \<times> bot" where
  "handleRefreshToken_async env uid token b =
     (case userWallets b uid of
        None \<Rightarrow> chat env (sendMessage WALLET_NOT_FOUND) b
      | Some w \<Rightarrow>
          and_then (chat env (sendMessage RefreshingToken) b) (\<lambda>b1.
            try_catch
              (case getTokenInfo env token of
                 Inl e \<Rightarrow> (Thrown e, b1)
               | Inr ti \<Rightarrow>
                   (case getTokenBalance env (address w) token of
                      Inl e \<Rightarrow> (Thrown e, b1)
                    | Inr tb \<Rightarrow>
                        and_then (chat env deleteMessage b1)
                          (chat env (sendMessage
                             (TokenDetails ti (scan_token env token) (formattedBalance tb))))))
              (\<lambda>e. chat env (editMessageText (ErrorRefreshingToken e)))))"

definition handleRefreshToken :: "env \<Rightarrow> string \<Rightarrow> string \<Rightarrow> bot \<Rightarrow> bot" where
  "handleRefreshToken env uid token =
     asyncErrorHandler False env (handleRefreshToken_async env uid token)"

subsection \<open>Wallet import\<close>

definition handleImportPrivateKey_async ::
    "env \<Rightarrow> string \<Rightarrow> string \<Rightarrow> bot \<Rightarrow> outcome \<times> bot" where
  "handleImportPrivateKey_async env uid text b =
     try_catch
       (case importWalletFromPrivateKey env (trim text) of
          Inl e \<Rightarrow> (Thrown e, b)
        | Inr w \<Rightarrow>
            chat env (sendMessage (WalletImported (address w)))
              (delete_session uid (b\<lparr>userWallets := (userWallets b)(uid \<mapsto> w)\<rparr>)))
       (\<lambda>e. chat env (sendMessage INVALID_PRIVATE_KEY))"

definition handleImportPrivateKey :: "env \<Rightarrow> string \<Rightarrow> string \<Rightarrow> bot \<Rightarrow> bot" where
  "handleImportPrivateKey env uid text =
     asyncErrorHandler True env (handleImportPrivateKey_async env uid text)"

definition handleImportMnemonic_async ::
    "env \<Rightarrow> string \<Rightarrow> string \<Rightarrow> bot \<Rightarrow> outcome \<times> bot" where
  "handleImportMnemonic_async env uid text b =
     try_catch
       (case importWalletFromMnemonic env (trim text) of
          Inl e \<Rightarrow> (Thrown e, b)
        | Inr w \<Rightarrow>
            chat env (sendMessage (WalletImported (address w)))
              (delete_session uid (b\<lparr>userWallets := (userWallets b)(uid \<mapsto> w)\<rparr>)))
       (\<lambda>e. chat env (sendMessage INVALID_MNEMONIC))"

definition handleImportMnemonic :: "env \<Rightarrow> string \<Rightarrow> string \<Rightarrow> bot \<Rightarrow> bot" where
  "handleImportMnemonic env uid text =
     asyncErrorHandler True env (handleImportMnemonic_async env uid text)"

subsection \<open>The buy flow\<close>

text \<open>The session object stored when a token is resolved for buying.\<close>

definition buy_session :: "string \<Rightarrow> token_info \<Rightarrow> session" where
  "buy_session token ti =
     \<lparr>state = Some BUY_AMOUNT, tokenAddress = Some token, tokenInfo = Some ti,
      tokenBalance = None, monAmount = None, tokenAmount = None\<rparr>"

definition handleBuyTokenAddress_async ::
    "env \<Rightarrow> string \<Rightarrow> string \<Rightarrow> bot \<Rightarrow> outcome \<times> bot" where
  "handleBuyTokenAddress_async env uid text b =
     (let token = trim text in
      if \<not> is_address token then chat env (sendMessage INVALID_ADDRESS) b
      else if session_state b uid = Some BUY_TOKEN then
        and_then (chat env (sendMessage FetchingToken) b) (\<lambda>b1.
          try_catch
            (case getTokenInfo env token of
               Inl e \<Rightarrow> (Thrown e, b1)
             | Inr ti \<Rightarrow>
                 chat env (editMessageText (HowMuchToSpend ti token))
                   (set_session uid (buy_session token ti) b1))
            (\<lambda>e. chat env (editMessageText (ErrorFetchingToken e))))
      else (Returned, handleContractAddressInput env uid token b))"

definition handleBuyTokenAddress :: "env \<Rightarrow> string \<Rightarrow> string \<Rightarrow> bot \<Rightarrow> bot" where
  "handleBuyTokenAddress env uid text =
     asyncErrorHandler True env (handleBuyTokenAddress_async env uid text)"

text \<open>
  A property of \<open>undefined\<close> cannot be read: building a text from
  \<open>session.tokenInfo.symbol\<close> throws when the session has no \<open>tokenInfo\<close>, after the
  assignments that precede it.
\<close>

definition handleBuyAmountChoice_async ::
    "env \<Rightarrow> string \<Rightarrow> string \<Rightarrow> bot \<Rightarrow> outcome \<times> bot" where
  "handleBuyAmountChoice_async env uid data b =
     (case userSessions b uid of
        None \<Rightarrow> (Returned, b)
      | Some s \<Rightarrow>
          if state s \<noteq> Some BUY_AMOUNT then (Returned, b)
          else if data = ''buy_custom'' then
            chat env (sendMessage EnterMonAmount)
              (set_session uid (s\<lparr>state := Some BUY_CUSTOM_AMOUNT\<rparr>) b)
          else
            (let amount = index_opt (split_on CHR ''_'' data) 1;
                 b1 = set_session uid (s\<lparr>monAmount := amount\<rparr>) b
             in case tokenInfo s of
                  None \<Rightarrow> (Thrown TypeError, b1)
                | Some ti \<Rightarrow> chat env (sendMessage (AboutToBuy (symbol ti) amount)) b1))"

definition handleBuyAmountChoice :: "env \<Rightarrow> string \<Rightarrow> string \<Rightarrow> bot \<Rightarrow> bot" where
  "handleBuyAmountChoice env uid data =
     asyncErrorHandler False env (handleBuyAmountChoice_async env uid data)"

definition handleBuyCustomAmount_async ::
    "env \<Rightarrow> string \<Rightarrow> string \<Rightarrow> bot \<Rightarrow> outcome \<times> bot" where
  "handleBuyCustomAmount_async env uid text b =
     (let amount = parseFloat (trim text) in
      if isNaN amount \<or> js_le amount (Finite 0)
      then chat env (sendMessage INVALID_AMOUNT) b
      else
        (case userSessions b uid of
           None \<Rightarrow> (Returned, b)
         | Some s \<Rightarrow>
             if state s \<noteq> Some BUY_CUSTOM_AMOUNT then (Returned, b)
             else
               (case userWallets b uid of
                  None \<Rightarrow> (Thrown TypeError, b)
                | Some w \<Rightarrow>
                    (case getBalance env (address w) of
                       Inl e \<Rightarrow> (Thrown e, b)
                     | Inr monBalance \<Rightarrow>
                         if js_lt (parseFloat monBalance) amount
                         then chat env (sendMessage (INSUFFICIENT_BALANCE monBalance)) b
                         else
                           (let b1 = set_session uid
                                       (s\<lparr>state := Some BUY_AMOUNT,
                                          monAmount := Some (toString amount)\<rparr>) b
                            in case tokenInfo s of
                                 None \<Rightarrow> (Thrown TypeError, b1)
                               | Some ti \<Rightarrow>
                                   chat env (sendMessage
                                     (AboutToBuy (symbol ti) (Some (toString amount)))) b1)))))"

definition handleBuyCustomAmount :: "env \<Rightarrow> string \<Rightarrow> string \<Rightarrow> bot \<Rightarrow> bot" where
  "handleBuyCustomAmount env uid text =
     asyncErrorHandler True env (handleBuyCustomAmount_async env uid text)"

text \<open>
  The confirmation: the processing message is sent before the \<open>try\<close>; the swap and the
  success report are inside it, the failure report is the \<open>catch\<close>; the session is
  deleted after the \<open>try\<close> statement. The follow-up message the source schedules one
  second after a purchase reads the wallet map and sends one text; it is not part of
  this function.
\<close>

definition handleConfirmBuy_async :: "env \<Rightarrow> string \<Rightarrow> bot \<Rightarrow> outcome \<times> bot" where
  "handleConfirmBuy_async env uid b =
     (case userSessions b uid of
        None \<Rightarrow> (Returned, b)
      | Some s \<Rightarrow>
          (case userWallets b uid of
             None \<Rightarrow> (Thrown TypeError, b)
           | Some w \<Rightarrow>
               (case tokenInfo s of
                  None \<Rightarrow> (Thrown TypeError, b)
                | Some ti \<Rightarrow>
                    and_then
                      (chat env (sendMessage (ProcessingPurchase (symbol ti) (monAmount s))) b)
                      (\<lambda>b1.
                        and_then
                          (try_catch
                             (case buyToken env (privateKey w) (tokenAddress s) (monAmount s) of
                                Inl e \<Rightarrow> (Thrown e, b1)
                              | Inr txHash \<Rightarrow>
                                  chat env (editMessageText
                                    (PurchaseSuccessful (symbol ti) (monAmount s) txHash)) b1)
                             (\<lambda>e. chat env (editMessageText (TransactionFailed e))))
                          (\<lambda>b2. (Returned, delete_session uid b2))))))"

definition handleConfirmBuy :: "env \<Rightarrow> string \<Rightarrow> bot \<Rightarrow> bot" where
  "handleConfirmBuy env uid = asyncErrorHandler False env (handleConfirmBuy_async env uid)"

subsection \<open>The sell flow\<close>

definition sell_session :: "string \<Rightarrow> token_info \<Rightarrow> string \<Rightarrow> session" where
  "sell_session token ti bal =
     \<lparr>state = Some SELL_AMOUNT, tokenAddress = Some token, tokenInfo = Some ti,
      tokenBalance = Some bal, monAmount = None, tokenAmount = None\<rparr>"

definition handleSellTokenAddress_async ::
    "env \<Rightarrow> string \<Rightarrow> string \<Rightarrow> bot \<Rightarrow> outcome \<times> bot" where
  "handleSellTokenAddress_async env uid text b =
     (let token = trim text in
      if \<not> is_address token then chat env (sendMessage INVALID_ADDRESS) b
      else if session_state b uid = Some SELL_TOKEN then
        and_then (chat env (sendMessage FetchingToken) b) (\<lambda>b1.
          try_catch
            (case userWallets b1 uid of
               None \<Rightarrow> (Thrown TypeError, b1)
             | Some w \<Rightarrow>
                 (case getTokenInfo env token of
                    Inl e \<Rightarrow> (Thrown e, b1)
                  | Inr ti \<Rightarrow>
                      (case getTokenBalance env (address w) token of
                         Inl e \<Rightarrow> (Thrown e, b1)
                       | Inr tb \<Rightarrow>
                           if js_le (parseFloat (balance tb)) (Finite 0)
                           then chat env (editMessageText (NoTokensToSell (symbol ti))) b1
                           else chat env (editMessageText (HowMuchToSell ti (balance tb)))
                                  (set_session uid (sell_session token ti (balance tb)) b1))))
            (\<lambda>e. chat env (editMessageText (ErrorFetchingToken e))))
      else (Returned, handleContractAddressInput env uid token b))"

definition handleSellTokenAddress :: "env \<Rightarrow> string \<Rightarrow> string \<Rightarrow> bot \<Rightarrow> bot" where
  "handleSellTokenAddress env uid text =
     asyncErrorHandler True env (handleSellTokenAddress_async env uid text)"

definition handleSellToken_async :: "env \<Rightarrow> string \<Rightarrow> string \<Rightarrow> bot \<Rightarrow> outcome \<times> bot" where
  "handleSellToken_async env uid token b =
     (case userWallets b uid of
        None \<Rightarrow> chat env (sendMessage WALLET_NOT_FOUND) b
      | Some w \<Rightarrow>
          try_catch
            (case getTokenInfo env token of
               Inl e \<Rightarrow> (Thrown e, b)
             | Inr ti \<Rightarrow>
                 (case getTokenBalance env (address w) token of
                    Inl e \<Rightarrow> (Thrown e, b)
                  | Inr tb \<Rightarrow>
                      if js_le (parseFloat (balance tb)) (Finite 0)
                      then chat env (sendMessage (NoTokensToSell (symbol ti))) b
                      else chat env (sendMessage (HowMuchToSell ti (balance tb)))
                             (set_session uid (sell_session token ti (balance tb)) b)))
            (\<lambda>e. chat env (sendMessage (ErrorFetchingToken e))))"

definition handleSellToken :: "env \<Rightarrow> string \<Rightarrow> string \<Rightarrow> bot \<Rightarrow> bot" where
  "handleSellToken env uid token =
     asyncErrorHandler False env (handleSellToken_async env uid token)"

text \<open>The string a value that may be \<open>undefined\<close> is converted to before it is parsed.\<close>

definition js_string :: "string option \<Rightarrow> string" where
  "js_string v = (case v of None \<Rightarrow> ''undefined'' | Some s \<Rightarrow> s)"

definition handleSellAmountChoice_async ::
    "env \<Rightarrow> string \<Rightarrow> string \<Rightarrow> bot \<Rightarrow> outcome \<times> bot" where
  "handleSellAmountChoice_async env uid data b =
     (case userSessions b uid of
        None \<Rightarrow> (Returned, b)
      | Some s \<Rightarrow>
          if state s \<noteq> Some SELL_AMOUNT then (Returned, b)
          else if data = ''sell_custom'' then
            (let b1 = set_session uid (s\<lparr>state := Some SELL_CUSTOM_AMOUNT\<rparr>) b
             in case tokenInfo s of
                  None \<Rightarrow> (Thrown TypeError, b1)
                | Some ti \<Rightarrow>
                    chat env (sendMessage (EnterTokenAmount (symbol ti) (tokenBalance s))) b1)
          else
            (let percentage = parseInt (js_string (index_opt (split_on CHR ''_'' data) 1));
                 totalBalance = parseFloat (js_string (tokenBalance s));
                 amount = toFixed 6 (js_div (js_mul totalBalance percentage) (Finite 100));
                 b1 = set_session uid (s\<lparr>tokenAmount := Some amount\<rparr>) b
             in case tokenInfo s of
                  None \<Rightarrow> (Thrown TypeError, b1)
                | Some ti \<Rightarrow>
                    chat env (sendMessage
                      (AboutToSell amount (symbol ti) (Some percentage))) b1))"

definition handleSellAmountChoice :: "env \<Rightarrow> string \<Rightarrow> string \<Rightarrow> bot \<Rightarrow> bot" where
  "handleSellAmountChoice env uid data =
     asyncErrorHandler False env (handleSellAmountChoice_async env uid data)"

definition handleSellCustomAmount_async ::
    "env \<Rightarrow> string \<Rightarrow> string \<Rightarrow> bot \<Rightarrow> outcome \<times> bot" where
  "handleSellCustomAmount_async env uid text b =
     (let amount = parseFloat (trim text) in
      if isNaN amount \<or> js_le amount (Finite 0)
      then chat env (sendMessage INVALID_AMOUNT) b
      else
        (case userSessions b uid of
           None \<Rightarrow> (Returned, b)
         | Some s \<Rightarrow>
             if state s \<noteq> Some SELL_CUSTOM_AMOUNT then (Returned, b)
             else
               (let totalBalance = parseFloat (js_string (tokenBalance s)) in
                if js_gt amount totalBalance then
                  (case tokenInfo s of
                     None \<Rightarrow> (Thrown TypeError, b)
                   | Some ti \<Rightarrow>
                       chat env (sendMessage (INSUFFICIENT_BALANCE
                         (toString totalBalance @ '' '' @ symbol ti))) b)
                else
                  (let b1 = set_session uid
                              (s\<lparr>state := Some SELL_AMOUNT,
                                 tokenAmount := Some (toString amount)\<rparr>) b
                   in case tokenInfo s of
                        None \<Rightarrow> (Thrown TypeError, b1)
                      | Some ti \<Rightarrow>
                          chat env (sendMessage
                            (AboutToSell (toString amount) (symbol ti) None)) b1))))"

definition handleSellCustomAmount :: "env \<Rightarrow> string \<Rightarrow> string \<Rightarrow> bot \<Rightarrow> bot" where
  "handleSellCustomAmount env uid text =
     asyncErrorHandler True env (handleSellCustomAmount_async env uid text)"

definition handleConfirmSell_async :: "env \<Rightarrow> string \<Rightarrow> bot \<Rightarrow> outcome \<times> bot" where
  "handleConfirmSell_async env uid b =
     (case userSessions b uid of
        None \<Rightarrow> (Returned, b)
      | Some s \<Rightarrow>
          (case userWallets b uid of
             None \<Rightarrow> (Thrown TypeError, b)
           | Some w \<Rightarrow>
               (case tokenInfo s of
                  None \<Rightarrow> (Thrown TypeError, b)
                | Some ti \<Rightarrow>
                    and_then
                      (chat env (sendMessage (ProcessingSale (tokenAmount s) (symbol ti))) b)
                      (\<lambda>b1.
                        and_then
                          (try_catch
                             (case sellToken env (privateKey w) (tokenAddress s) (tokenAmount s) of
                                Inl e \<Rightarrow> (Thrown e, b1)
                              | Inr txHash \<Rightarrow>
                                  chat env (editMessageText
                                    (SaleSuccessful (tokenAmount s) (symbol ti) txHash)) b1)
                             (\<lambda>e. chat env (editMessageText (TransactionFailed e))))
                          (\<lambda>b2. (Returned, delete_session uid b2))))))"

definition handleConfirmSell :: "env \<Rightarrow> string \<Rightarrow> bot \<Rightarrow> bot" where
  "handleConfirmSell env uid = asyncErrorHandler False env (handleConfirmSell_async env uid)"

subsection \<open>The two dispatchers\<close>

text \<open>
  \<open>data.replace(p, '')\<close> under the guard \<open>data.startsWith(p)\<close>: the first occurrence of
  \<open>p\<close> is the prefix.
\<close>

definition after_prefix :: "string \<Rightarrow> string \<Rightarrow> string" where
  "after_prefix p data = drop (length p) data"

text \<open>The \<open>switch (data)\<close> statement of the button handler.\<close>

definition callback_switch :: "env \<Rightarrow> string \<Rightarrow> string \<Rightarrow> bot \<Rightarrow> outcome \<times> bot" where
  "callback_switch env uid data b =
     (if data = ''wallet'' then (Returned, handleCreateWallet env uid b)
      else if data = ''mywallet'' then (Returned, handleMyWalletImplementation env uid b)
      else if data = ''balance'' then (Returned, handleBalance env uid b)
      else if data = ''buy'' then (Returned, handleBuy env uid b)
      else if data = ''sell'' then (Returned, handleSell env uid b)
      else if data = ''help'' then (Returned, handleHelp env b)
      else if data = ''create_wallet'' then (Returned, handleCreateNewWallet env uid b)
      else if data = ''show_private_key'' then
        (case userWallets b uid of
           None \<Rightarrow> (Returned, b)
         | Some w \<Rightarrow> chat env (sendMessage (YourPrivateKey (privateKey w))) b)
      else if data = ''delete_wallet'' then
        (case userWallets b uid of
           None \<Rightarrow> (Returned, b)
         | Some w \<Rightarrow>
             chat env (sendMessage WalletDeleted)
               (b\<lparr>userWallets := (userWallets b)(uid := None)\<rparr>))
      else if data = ''import_private_key'' then
        chat env (sendMessage EnterPrivateKey)
          (set_session uid (new_session IMPORT_PRIVATE_KEY) b)
      else if data = ''import_mnemonic'' then
        chat env (sendMessage EnterMnemonic)
          (set_session uid (new_session IMPORT_MNEMONIC) b)
      else if data = ''cancel'' then
        chat env (sendMessage OperationCancelled) (delete_session uid b)
      else if data \<in> set [''buy_1'', ''buy_2'', ''buy_5'', ''buy_10'', ''buy_50'', ''buy_custom'']
        then (Returned, handleBuyAmountChoice env uid data b)
      else if data \<in> set [''sell_25'', ''sell_50'', ''sell_75'', ''sell_100'', ''sell_custom'']
        then (Returned, handleSellAmountChoice env uid data b)
      else if data = ''confirm_buy'' then (Returned, handleConfirmBuy env uid b)
      else if data = ''confirm_sell'' then (Returned, handleConfirmSell env uid b)
      else (Returned, b))"

text \<open>
  Button presses: the acknowledgement is awaited first, then the prefixes are tested,
  then the switch. The source tests the prefix \<open>sell_token_\<close> a second time after
  \<open>buy_token_\<close>; that branch cannot be taken and is left out.
\<close>

definition callback_query_async :: "env \<Rightarrow> string \<Rightarrow> string \<Rightarrow> bot \<Rightarrow> outcome \<times> bot" where
  "callback_query_async env uid data b0 =
     and_then (chat env answerCallbackQuery b0) (\<lambda>b.
       if startsWith data ''refresh_'' then
         (Returned, handleRefreshToken env uid (after_prefix ''refresh_'' data) b)
       else if startsWith data ''sell_token_'' then
         (Returned, handleSellToken env uid (after_prefix ''sell_token_'' data) b)
       else if startsWith data ''buy_token_'' then
         (let token = after_prefix ''buy_token_'' data in
          case getTokenInfo env token of
            Inl e \<Rightarrow> (Thrown e, b)
          | Inr ti \<Rightarrow>
              chat env (sendMessage (HowMuchToSpend ti token))
                (set_session uid (buy_session token ti) b))
       else callback_switch env uid data b)"

definition callback_query :: "env \<Rightarrow> string \<Rightarrow> string \<Rightarrow> bot \<Rightarrow> bot" where
  "callback_query env uid data =
     asyncErrorHandler False env (callback_query_async env uid data)"

text \<open>Messages; \<open>None\<close> is a message without text.\<close>

definition on_message_async ::
    "env \<Rightarrow> string \<Rightarrow> string option \<Rightarrow> bot \<Rightarrow> outcome \<times> bot" where
  "on_message_async env uid msg_text b =
     (case msg_text of
        None \<Rightarrow> (Returned, b)
      | Some raw \<Rightarrow>
          if raw = [] \<or> startsWith raw ''/'' then (Returned, b)
          else
            (let text = trim raw in
             if is_address text then
               (case userWallets b uid of
                  None \<Rightarrow> chat env (sendMessage WALLET_NOT_FOUND) b
                | Some w \<Rightarrow>
                    if session_state b uid = None
                      then (Returned, handleContractAddressInput env uid text b)
                    else if session_state b uid = Some BUY_TOKEN
                      then (Returned, handleBuyTokenAddress env uid raw b)
                    else if session_state b uid = Some SELL_TOKEN
                      then (Returned, handleSellTokenAddress env uid raw b)
                    else (Returned, handleContractAddressInput env uid text b))
             else
               (case userSessions b uid of
                  None \<Rightarrow> (Returned, b)
                | Some s \<Rightarrow>
                    if state s = Some IMPORT_PRIVATE_KEY
                      then (Returned, handleImportPrivateKey env uid raw b)
                    else if state s = Some IMPORT_MNEMONIC
                      then (Returned, handleImportMnemonic env uid raw b)
                    else if state s = Some BUY_TOKEN
                      then (Returned, handleBuyTokenAddress env uid raw b)
                    else if state s = Some BUY_CUSTOM_AMOUNT
                      then (Returned, handleBuyCustomAmount env uid raw b)
                    else if state s = Some SELL_TOKEN
                      then (Returned, handleSellTokenAddress env uid raw b)
                    else if state s = Some SELL_CUSTOM_AMOUNT
                      then (Returned, handleSellCustomAmount env uid raw b)
                    else (Returned, b))))"

definition on_message :: "env \<Rightarrow> string \<Rightarrow> string option \<Rightarrow> bot \<Rightarrow> bot" where
  "on_message env uid msg_text =
     asyncErrorHandler True env (on_message_async env uid msg_text)"

text \<open>
  The commands registered with \<open>onText\<close>. A text that matches a command pattern runs
  that command's handler; the run is the event \<open>Command\<close>.
\<close>

datatype command =
    Cmd_start | Cmd_help | Cmd_createwallet | Cmd_create_wallet
  | Cmd_mywallet | Cmd_balance | Cmd_buy | Cmd_sell

fun on_command :: "env \<Rightarrow> string \<Rightarrow> command \<Rightarrow> bot \<Rightarrow> bot" where
  "on_command env uid Cmd_start = handleStart env"
| "on_command env uid Cmd_help = handleHelp env"
| "on_command env uid Cmd_createwallet = handleCreateWallet env uid"
| "on_command env uid Cmd_create_wallet = handleCreateNewWallet env uid"
| "on_command env uid Cmd_mywallet = handleMyWallet env uid"
| "on_command env uid Cmd_balance = handleBalance env uid"
| "on_command env uid Cmd_buy = handleBuy env uid"
| "on_command env uid Cmd_sell = handleSell env uid"

subsection \<open>Runs of the bot\<close>

datatype event = Command command | Message "string option" | Callback string

fun step :: "env \<Rightarrow> string \<Rightarrow> event \<Rightarrow> bot \<Rightarrow> bot" where
  "step env uid (Command c) = on_command env uid c"
| "step env uid (Message t) = on_message env uid t"
| "step env uid (Callback d) = callback_query env uid d"

text \<open>
  At start no user has a session and the wallet map holds what the wallet file held.
  Every event is handled with what the collaborators answer at that time.
\<close>

inductive reachable :: "bot \<Rightarrow> bool" where
  start: "userSessions b = Map.empty \<Longrightarrow> calls b = [] \<Longrightarrow> reachable b"
| event: "reachable b \<Longrightarrow> reachable (step env uid ev b)"

fun run :: "(env \<times> string \<times> event) list \<Rightarrow> bot \<Rightarrow> bot" where
  "run [] b = b"
| "run ((env, uid, ev) # es) b = run es (step env uid ev b)"

subsection \<open>What every session of a run satisfies\<close>

text \<open>
  A session always has a state. In the four amount states the token is resolved; in the
  two sell amount states the balance taken at entry parses to a number above zero; in
  every other state the session is the fresh object \<open>{state: ...}\<close>.
\<close>

definition session_inv :: "session \<Rightarrow> bool" where
  "session_inv s =
     (case state s of
        None \<Rightarrow> False
      | Some st \<Rightarrow>
          if st = BUY_AMOUNT \<or> st = BUY_CUSTOM_AMOUNT then tokenInfo s \<noteq> None
          else if st = SELL_AMOUNT \<or> st = SELL_CUSTOM_AMOUNT then
            tokenInfo s \<noteq> None \<and>
            (case tokenBalance s of
               None \<Rightarrow> False
             | Some bal \<Rightarrow> js_gt (parseFloat bal) (Finite 0))
          else tokenInfo s = None \<and> monAmount s = None \<and> tokenAmount s = None)"

definition store_inv :: "bot \<Rightarrow> bool" where
  "store_inv b = (\<forall>uid s. userSessions b uid = Some s \<longrightarrow> session_inv s)"

subsection \<open>A user, a token and some collaborators for concrete runs\<close>

definition alice :: string where
  "alice = ''1001''"

definition token0 :: string where
  "token0 = ''0xaaaaaaaaaaaaaaaaaaaaaaaaaaaaaaaaaaaaaaaa''"

definition wallet0 :: wallet where
  "wallet0 =
     \<lparr>address = ''0xbbbbbbbbbbbbbbbbbbbbbbbbbbbbbbbbbbbbbbbb'', privateKey = ''0xkey'',
      mnemonic = None\<rparr>"

definition tkn :: token_info where
  "tkn = \<lparr>ti_address = token0, decimals = 18, symbol = ''TKN'', name = ''Token''\<rparr>"

text \<open>
  Collaborators that all answer: 5 MON in the wallet, 10 units of an 18-decimal token;
  a swap without an amount or a token fails in the router call, any other is mined;
  the Telegram client accepts every call.
\<close>

definition all_up :: env where
  "all_up =
     \<lparr>erc20 = (\<lambda>t. Inr (18, ''TKN'', ''Token'')),
      balanceOf = (\<lambda>t a. Inr 10000000000000000000),
      provider_getBalance = (\<lambda>a. Inr 5000000000000000000),
      swap_buy = (\<lambda>k t a. if t = None \<or> a = None then Inl ''invalid value'' else Inr ''0x01''),
      swap_sell = (\<lambda>k t a. if t = None \<or> a = None then Inl ''invalid value'' else Inr ''0x02''),
      scan_token = (\<lambda>t. \<lparr>marketCap = None, price = None\<rparr>),
      scan_wallet = (\<lambda>a. []),
      createRandom = wallet0,
      fromPrivateKey = (\<lambda>k. Inr wallet0),
      fromMnemonic = (\<lambda>k. Inr wallet0),
      telegram = (\<lambda>h c. None)\<rparr>"

text \<open>The same with the token contract and the router failing.\<close>

definition chain_down :: env where
  "chain_down =
     all_up\<lparr>erc20 := (\<lambda>t. Inl ''call revert exception''),
            swap_buy := (\<lambda>k t a. Inl ''insufficient funds''),
            swap_sell := (\<lambda>k t a. Inl ''insufficient funds'')\<rparr>"

text \<open>The same as \<open>all_up\<close> with the Telegram client rejecting every call.\<close>

definition telegram_down :: env where
  "telegram_down = all_up\<lparr>telegram := (\<lambda>h c. Some ''ETELEGRAM'')\<rparr>"

definition bot0 :: bot where
  "bot0 = \<lparr>userWallets = [alice \<mapsto> wallet0], userSessions = Map.empty, calls = []\<rparr>"

text \<open>
  Runs from \<open>bot0\<close>: the buy command; the sell button of a token view, then "Custom";
  the buy button, then "1 MON".
\<close>

definition buying :: bot where
  "buying = run [(all_up, alice, Command Cmd_buy)] bot0"

definition selling :: bot where
  "selling = run [(all_up, alice, Callback (''sell_token_'' @ token0))] bot0"

definition selling_custom :: bot where
  "selling_custom = run [(all_up, alice, Callback ''sell_custom'')] selling"

definition buying_staged :: bot where
  "buying_staged =
     run [(all_up, alice, Callback (''buy_token_'' @ token0)),
          (all_up, alice, Callback ''buy_1'')] bot0"

text \<open>States and collaborators used in the examples below.\<close>

definition acked :: "bot \<Rightarrow> bot" where
  "acked b = b\<lparr>calls := calls b @ [(answerCallbackQuery, None)]\<rparr>"



section \<open>Properties\<close>

subsection \<open>Numbers from the chain\<close>

lemma to_double_not_NaN: "to_double q \<noteq> NaN"
  by (simp add: to_double_def Let_def)

lemma digit_char_is_digit: "is_digit (digit_char n)"
proof -
  have "n mod 10 < length ''0123456789''" by simp
  then have "''0123456789'' ! (n mod 10) \<in> set ''0123456789''" by (rule nth_mem)
  then show ?thesis by (simp only: is_digit_def digit_char_def)
qed

lemma string_of_nat_not_Nil: "string_of_nat n \<noteq> []"
  by (subst string_of_nat.simps) simp

lemma string_of_nat_digits: "list_all is_digit (string_of_nat n)"
proof (induction n rule: string_of_nat.induct)
  case (1 n)
  then show ?case
    by (subst string_of_nat.simps) (simp add: digit_char_is_digit)
qed

lemma string_of_nat_hd: "is_digit (hd (string_of_nat n))"
  using string_of_nat_digits [of n] string_of_nat_not_Nil [of n]
  by (cases "string_of_nat n") simp_all

lemma formatUnits_hd: "formatUnits v d \<noteq> [] \<and> is_digit (hd (formatUnits v d))"
  by (simp add: formatUnits_def Let_def string_of_nat_hd string_of_nat_not_Nil)

lemma digit_not_special:
  "is_digit c \<Longrightarrow> \<not> is_ws c \<and> c \<noteq> CHR ''-'' \<and> c \<noteq> CHR ''+'' \<and> c \<noteq> CHR ''I''"
  by (auto simp: is_digit_def is_ws_def)

lemma parse_unsigned_digit: "s \<noteq> [] \<Longrightarrow> is_digit (hd s) \<Longrightarrow> parse_unsigned s \<noteq> NaN"
  by (cases s) (simp_all add: parse_unsigned_def Let_def to_double_not_NaN)

lemma parseFloat_digit: "s \<noteq> [] \<Longrightarrow> is_digit (hd s) \<Longrightarrow> parseFloat s \<noteq> NaN"
  using digit_not_special [of "hd s"]
  by (cases s) (simp_all add: parseFloat_def trimStart_def parse_unsigned_digit)

lemma parseFloat_formatUnits: "parseFloat (formatUnits v d) \<noteq> NaN"
  using formatUnits_hd [of v d] by (simp add: parseFloat_digit)

lemma js_positive: "x \<noteq> NaN \<Longrightarrow> \<not> js_le x (Finite 0) \<Longrightarrow> js_gt x (Finite 0)"
  by (cases x) (simp_all add: js_le_def js_gt_def)


subsection \<open>Chat calls leave the two maps alone\<close>

lemma chat_sessions [simp]: "userSessions (snd (chat env c b)) = userSessions b"
  by (simp add: chat_def split: option.splits)

lemma chat_wallets [simp]: "userWallets (snd (chat env c b)) = userWallets b"
  by (simp add: chat_def split: option.splits)

lemma chat_delivered:
  "telegram env (calls b) c = None \<Longrightarrow> chat env c b = (Returned, b\<lparr>calls := calls b @ [(c, None)]\<rparr>)"
  by (simp add: chat_def)

lemma chat_rejected:
  "telegram env (calls b) c = Some m
   \<Longrightarrow> chat env c b = (Thrown (Error m), b\<lparr>calls := calls b @ [(c, Some m)]\<rparr>)"
  by (simp add: chat_def)

lemma handler_sessions:
  "userSessions (asyncErrorHandler h env fn b) = userSessions (snd (fn b))"
  by (cases "fn b") (auto simp: asyncErrorHandler_def split: outcome.splits)

lemma handler_wallets:
  "userWallets (asyncErrorHandler h env fn b) = userWallets (snd (fn b))"
  by (cases "fn b") (auto simp: asyncErrorHandler_def split: outcome.splits)

lemma handler_returned: "fn b = (Returned, b') \<Longrightarrow> asyncErrorHandler h env fn b = b'"
  by (simp add: asyncErrorHandler_def)

lemma handler_silent: "asyncErrorHandler False env fn b = snd (fn b)"
  by (cases "fn b") (auto simp: asyncErrorHandler_def split: outcome.splits)

subsection \<open>The session invariant\<close>

lemma store_inv_chat [simp]: "store_inv (snd (chat env c b)) = store_inv b"
  by (simp add: store_inv_def)

lemma store_inv_wallets [simp]: "store_inv (b\<lparr>userWallets := w\<rparr>) = store_inv b"
  by (simp add: store_inv_def)

lemma store_inv_set: "session_inv s \<Longrightarrow> store_inv b \<Longrightarrow> store_inv (set_session uid s b)"
  by (simp add: store_inv_def set_session_def)

lemma store_inv_delete: "store_inv b \<Longrightarrow> store_inv (delete_session uid b)"
  by (simp add: store_inv_def delete_session_def)

lemma store_invD: "store_inv b \<Longrightarrow> userSessions b uid = Some s \<Longrightarrow> session_inv s"
  by (simp add: store_inv_def)

lemma inv_and_then:
  "store_inv (snd r) \<Longrightarrow> (\<And>b'. store_inv b' \<Longrightarrow> store_inv (snd (k b')))
   \<Longrightarrow> store_inv (snd (and_then r k))"
  by (cases r) (auto simp: and_then_def split: outcome.splits)

lemma inv_try_catch:
  "store_inv (snd r) \<Longrightarrow> (\<And>e b'. store_inv b' \<Longrightarrow> store_inv (snd (h e b')))
   \<Longrightarrow> store_inv (snd (try_catch r h))"
  by (cases r) (auto simp: try_catch_def split: outcome.splits)

lemma store_inv_handler:
  "store_inv (snd (fn b)) \<Longrightarrow> store_inv (asyncErrorHandler h env fn b)"
  by (simp add: store_inv_def handler_sessions)

lemma session_inv_new:
  "st \<in> {WALLET_MENU, IMPORT_PRIVATE_KEY, IMPORT_MNEMONIC, BUY_TOKEN, SELL_TOKEN}
   \<Longrightarrow> session_inv (new_session st)"
  by (auto simp: session_inv_def new_session_def)

lemma session_inv_buy: "session_inv (buy_session token ti)"
  by (simp add: session_inv_def buy_session_def)

lemma session_inv_sell:
  "js_gt (parseFloat bal) (Finite 0) \<Longrightarrow> session_inv (sell_session token ti bal)"
  by (simp add: session_inv_def sell_session_def)

lemma getTokenBalance_number:
  "getTokenBalance env a t = Inr tb \<Longrightarrow> parseFloat (balance tb) \<noteq> NaN"
  by (auto simp: getTokenBalance_def parseFloat_formatUnits split: sum.splits prod.splits)

lemma inv_handleStart: "store_inv b \<Longrightarrow> store_inv (handleStart env b)"
  by (simp add: handleStart_def store_inv_handler)

lemma inv_handleHelp: "store_inv b \<Longrightarrow> store_inv (handleHelp env b)"
  by (simp add: handleHelp_def store_inv_handler)

lemma inv_handleCreateWallet: "store_inv b \<Longrightarrow> store_inv (handleCreateWallet env uid b)"
  by (simp add: handleCreateWallet_def store_inv_handler store_inv_set session_inv_new)

lemma inv_handleCreateNewWallet: "store_inv b \<Longrightarrow> store_inv (handleCreateNewWallet env uid b)"
  by (simp add: handleCreateNewWallet_def store_inv_handler Let_def)

lemma inv_handleBalance: "store_inv b \<Longrightarrow> store_inv (handleBalance env uid b)"
  unfolding handleBalance_def
  by (rule store_inv_handler)
     (auto simp: handleBalance_async_def intro!: inv_and_then inv_try_catch
        split: option.splits sum.splits)

lemma inv_handleMyWallet_async: "store_inv b \<Longrightarrow> store_inv (snd (handleMyWallet_async env uid b))"
  by (auto simp: handleMyWallet_async_def intro!: inv_and_then inv_try_catch
        split: option.splits sum.splits)

lemma inv_handleMyWallet: "store_inv b \<Longrightarrow> store_inv (handleMyWallet env uid b)"
  by (simp add: handleMyWallet_def store_inv_handler inv_handleMyWallet_async)

lemma inv_handleMyWalletImplementation:
  "store_inv b \<Longrightarrow> store_inv (handleMyWalletImplementation env uid b)"
  by (simp add: handleMyWalletImplementation_def store_inv_handler inv_handleMyWallet_async)

lemma inv_handleBuy: "store_inv b \<Longrightarrow> store_inv (handleBuy env uid b)"
  unfolding handleBuy_def
  by (rule store_inv_handler)
     (simp add: handleBuy_async_def store_inv_set session_inv_new split: option.splits sum.splits)

lemma inv_handleSell: "store_inv b \<Longrightarrow> store_inv (handleSell env uid b)"
  unfolding handleSell_def
  by (rule store_inv_handler)
     (simp add: handleSell_async_def store_inv_set session_inv_new split: option.splits)

lemma inv_handleContractAddressInput:
  "store_inv b \<Longrightarrow> store_inv (handleContractAddressInput env uid token b)"
  unfolding handleContractAddressInput_def
  by (rule store_inv_handler)
     (auto simp: handleContractAddressInput_async_def intro!: inv_and_then inv_try_catch
        split: option.splits sum.splits)

lemma inv_handleRefreshToken:
  "store_inv b \<Longrightarrow> store_inv (handleRefreshToken env uid token b)"
  unfolding handleRefreshToken_def
  by (rule store_inv_handler)
     (auto simp: handleRefreshToken_async_def intro!: inv_and_then inv_try_catch
        split: option.splits sum.splits)

lemma inv_handleImportPrivateKey:
  "store_inv b \<Longrightarrow> store_inv (handleImportPrivateKey env uid text b)"
  unfolding handleImportPrivateKey_def
  by (rule store_inv_handler)
     (auto simp: handleImportPrivateKey_async_def store_inv_delete intro!: inv_try_catch
        split: sum.splits)

lemma inv_handleImportMnemonic:
  "store_inv b \<Longrightarrow> store_inv (handleImportMnemonic env uid text b)"
  unfolding handleImportMnemonic_def
  by (rule store_inv_handler)
     (auto simp: handleImportMnemonic_async_def store_inv_delete intro!: inv_try_catch
        split: sum.splits)

lemma inv_handleBuyTokenAddress:
  "store_inv b \<Longrightarrow> store_inv (handleBuyTokenAddress env uid text b)"
  unfolding handleBuyTokenAddress_def
  by (rule store_inv_handler)
     (auto simp: handleBuyTokenAddress_async_def Let_def store_inv_set session_inv_buy
        inv_handleContractAddressInput intro!: inv_and_then inv_try_catch split: sum.splits)

lemma inv_handleBuyAmountChoice:
  assumes "store_inv b"
  shows "store_inv (handleBuyAmountChoice env uid data b)"
  unfolding handleBuyAmountChoice_def
proof (rule store_inv_handler)
  show "store_inv (snd (handleBuyAmountChoice_async env uid data b))"
  proof (cases "userSessions b uid")
    case None
    then show ?thesis using assms by (simp add: handleBuyAmountChoice_async_def)
  next
    case (Some s)
    have "session_inv s" using assms Some by (rule store_invD)
    then have "state s = Some BUY_AMOUNT \<Longrightarrow> session_inv (s\<lparr>state := Some BUY_CUSTOM_AMOUNT\<rparr>)"
      and "state s = Some BUY_AMOUNT \<Longrightarrow> session_inv (s\<lparr>monAmount := a\<rparr>)" for a
      by (simp_all add: session_inv_def)
    then show ?thesis using assms Some
      by (simp add: handleBuyAmountChoice_async_def Let_def store_inv_set split: option.splits)
  qed
qed

lemma inv_handleBuyCustomAmount:
  assumes "store_inv b"
  shows "store_inv (handleBuyCustomAmount env uid text b)"
  unfolding handleBuyCustomAmount_def
proof (rule store_inv_handler)
  show "store_inv (snd (handleBuyCustomAmount_async env uid text b))"
  proof (cases "userSessions b uid")
    case None
    then show ?thesis using assms by (simp add: handleBuyCustomAmount_async_def Let_def)
  next
    case (Some s)
    have "session_inv s" using assms Some by (rule store_invD)
    then have "state s = Some BUY_CUSTOM_AMOUNT
        \<Longrightarrow> session_inv (s\<lparr>state := Some BUY_AMOUNT, monAmount := a\<rparr>)" for a
      by (simp add: session_inv_def)
    then show ?thesis using assms Some
      by (simp add: handleBuyCustomAmount_async_def Let_def store_inv_set
            split: option.splits sum.splits)
  qed
qed

lemma inv_handleConfirmBuy: "store_inv b \<Longrightarrow> store_inv (handleConfirmBuy env uid b)"
  unfolding handleConfirmBuy_def
  by (rule store_inv_handler)
     (auto simp: handleConfirmBuy_async_def store_inv_delete
        intro!: inv_and_then inv_try_catch split: option.splits sum.splits)

lemma inv_handleConfirmSell: "store_inv b \<Longrightarrow> store_inv (handleConfirmSell env uid b)"
  unfolding handleConfirmSell_def
  by (rule store_inv_handler)
     (auto simp: handleConfirmSell_async_def store_inv_delete
        intro!: inv_and_then inv_try_catch split: option.splits sum.splits)

lemma inv_handleSellTokenAddress:
  "store_inv b \<Longrightarrow> store_inv (handleSellTokenAddress env uid text b)"
  unfolding handleSellTokenAddress_def
  by (rule store_inv_handler)
     (auto simp: handleSellTokenAddress_async_def Let_def store_inv_set session_inv_sell
        inv_handleContractAddressInput js_positive getTokenBalance_number
        intro!: inv_and_then inv_try_catch split: sum.splits option.splits)

lemma inv_handleSellToken:
  "store_inv b \<Longrightarrow> store_inv (handleSellToken env uid token b)"
  unfolding handleSellToken_def
  by (rule store_inv_handler)
     (auto simp: handleSellToken_async_def Let_def store_inv_set session_inv_sell
        js_positive getTokenBalance_number intro!: inv_try_catch
        split: sum.splits option.splits)

lemma inv_handleSellAmountChoice:
  assumes "store_inv b"
  shows "store_inv (handleSellAmountChoice env uid data b)"
  unfolding handleSellAmountChoice_def
proof (rule store_inv_handler)
  show "store_inv (snd (handleSellAmountChoice_async env uid data b))"
  proof (cases "userSessions b uid")
    case None
    then show ?thesis using assms by (simp add: handleSellAmountChoice_async_def)
  next
    case (Some s)
    have "session_inv s" using assms Some by (rule store_invD)
    then have "state s = Some SELL_AMOUNT \<Longrightarrow> session_inv (s\<lparr>state := Some SELL_CUSTOM_AMOUNT\<rparr>)"
      and "state s = Some SELL_AMOUNT \<Longrightarrow> session_inv (s\<lparr>tokenAmount := a\<rparr>)" for a
      by (simp_all add: session_inv_def)
    then show ?thesis using assms Some
      by (simp add: handleSellAmountChoice_async_def Let_def store_inv_set split: option.splits)
  qed
qed

lemma inv_handleSellCustomAmount:
  assumes "store_inv b"
  shows "store_inv (handleSellCustomAmount env uid text b)"
  unfolding handleSellCustomAmount_def
proof (rule store_inv_handler)
  show "store_inv (snd (handleSellCustomAmount_async env uid text b))"
  proof (cases "userSessions b uid")
    case None
    then show ?thesis using assms by (simp add: handleSellCustomAmount_async_def Let_def)
  next
    case (Some s)
    have "session_inv s" using assms Some by (rule store_invD)
    then have "state s = Some SELL_CUSTOM_AMOUNT
        \<Longrightarrow> session_inv (s\<lparr>state := Some SELL_AMOUNT, tokenAmount := a\<rparr>)" for a
      by (simp add: session_inv_def)
    then show ?thesis using assms Some
      by (simp add: handleSellCustomAmount_async_def Let_def store_inv_set split: option.splits)
  qed
qed

lemmas inv_handlers =
  inv_handleStart inv_handleHelp inv_handleCreateWallet inv_handleCreateNewWallet
  inv_handleBalance inv_handleMyWallet inv_handleMyWalletImplementation inv_handleBuy
  inv_handleSell inv_handleContractAddressInput inv_handleRefreshToken
  inv_handleImportPrivateKey inv_handleImportMnemonic inv_handleBuyTokenAddress
  inv_handleBuyAmountChoice inv_handleBuyCustomAmount inv_handleConfirmBuy
  inv_handleConfirmSell inv_handleSellTokenAddress inv_handleSellToken
  inv_handleSellAmountChoice inv_handleSellCustomAmount

lemma snd_if: "snd (if c then x else y) = (if c then snd x else snd y)"
  by simp

lemma inv_if:
  "(c \<Longrightarrow> store_inv x) \<Longrightarrow> (\<not> c \<Longrightarrow> store_inv y) \<Longrightarrow> store_inv (if c then x else y)"
  by simp

lemma inv_callback_switch:
  "store_inv b \<Longrightarrow> store_inv (snd (callback_switch env uid data b))"
  apply (simp only: callback_switch_def snd_if)
  apply (intro inv_if)
  apply (simp_all add: inv_handlers store_inv_set store_inv_delete session_inv_new
           split: option.splits)
  done

lemma inv_callback_query: "store_inv b \<Longrightarrow> store_inv (callback_query env uid data b)"
  unfolding callback_query_def
  apply (rule store_inv_handler)
  apply (simp only: callback_query_async_def Let_def)
  apply (rule inv_and_then)
   apply simp
  apply (simp only: snd_if)
  apply (intro inv_if)
  apply (simp_all add: inv_handlers inv_callback_switch store_inv_set session_inv_buy
           split: sum.splits)
  done

lemma inv_on_message: "store_inv b \<Longrightarrow> store_inv (on_message env uid t b)"
  unfolding on_message_def
  by (rule store_inv_handler)
     (simp add: on_message_async_def Let_def inv_handlers split: option.splits)

lemma inv_on_command: "store_inv b \<Longrightarrow> store_inv (on_command env uid c b)"
  by (cases c) (simp_all add: inv_handlers)

lemma inv_step: "store_inv b \<Longrightarrow> store_inv (step env uid ev b)"
  by (cases ev) (simp_all add: inv_on_command inv_on_message inv_callback_query)

lemma reachable_inv: "reachable b \<Longrightarrow> store_inv b"
proof (induction rule: reachable.induct)
  case (start b)
  then show ?case by (simp add: store_inv_def)
next
  case (event b env uid ev)
  then show ?case by (simp add: inv_step)
qed

lemma reachable_run: "reachable b \<Longrightarrow> reachable (run es b)"
proof (induction es arbitrary: b)
  case Nil
  then show ?case by simp
next
  case (Cons e es)
  obtain env uid ev where e: "e = (env, uid, ev)" by (cases e) auto
  have "reachable (step env uid ev b)" using Cons.prems by (rule reachable.event)
  then have "reachable (run es (step env uid ev b))" by (rule Cons.IH)
  then show ?case by (simp add: e)
qed

subsection \<open>Facts about the concrete runs\<close>

lemma token0_facts:
  "is_address token0 \<and> trim token0 = token0 \<and> token0 \<noteq> [] \<and> \<not> startsWith token0 ''/''"
  by code_simp

lemma units_10: "formatUnits 10000000000000000000 18 = ''10.0''"
  by (simp add: formatUnits_def Let_def string_of_nat.simps digit_char_def)

lemma units_5: "formatUnits 5000000000000000000 18 = ''5.0''"
  by (simp add: formatUnits_def Let_def string_of_nat.simps digit_char_def)

lemma parse_10: "parseFloat ''10.0'' = Finite 10"
  by code_simp

lemma parse_5: "parseFloat ''5.0'' = Finite 5"
  by code_simp

lemma all_up_chat: "chat all_up c b = (Returned, b\<lparr>calls := calls b @ [(c, None)]\<rparr>)"
  by (simp add: chat_def all_up_def)

lemma all_up_token: "getTokenInfo all_up token0 = Inr tkn"
  by (simp add: getTokenInfo_def all_up_def tkn_def)

lemma all_up_balance:
  "\<exists>tb. getTokenBalance all_up a token0 = Inr tb \<and> balance tb = ''10.0''"
  by (simp add: getTokenBalance_def all_up_def units_10)

lemma all_up_mon: "getBalance all_up a = Inr ''5.0''"
  by (simp add: getBalance_def all_up_def units_5)

lemma buying_state:
  "userWallets buying alice = Some wallet0 \<and>
   userSessions buying alice = Some (new_session BUY_TOKEN)"
  by (simp add: buying_def handleBuy_def handleBuy_async_def asyncErrorHandler_def bot0_def
        all_up_mon parse_5 js_le_def all_up_chat set_session_def)

lemma selling_state:
  "userWallets selling alice = Some wallet0 \<and>
   userSessions selling alice = Some (sell_session token0 tkn ''10.0'') \<and>
   calls selling = [(answerCallbackQuery, None),
                    (sendMessage (HowMuchToSell tkn ''10.0''), None)]"
proof -
  obtain tb where tb: "getTokenBalance all_up (address wallet0) token0 = Inr tb"
    "balance tb = ''10.0''"
    using all_up_balance by blast
  show ?thesis
    by (simp add: selling_def callback_query_def callback_query_async_def startsWith_def
          after_prefix_def token0_def [symmetric] asyncErrorHandler_def handleSellToken_def
          handleSellToken_async_def bot0_def all_up_chat and_then_def try_catch_def
          all_up_token tb parse_10 js_le_def set_session_def)
qed



lemma reachable_bot0: "reachable bot0"
  by (rule reachable.start) (simp_all add: bot0_def)

lemma reachable_examples:
  "reachable buying \<and> reachable selling \<and> reachable selling_custom \<and> reachable buying_staged"
  unfolding buying_def selling_custom_def selling_def buying_staged_def
  by (intro conjI reachable_run reachable_bot0)

subsection \<open>Dispatch of a button press\<close>

lemma callback_rejected:
  "telegram env (calls b) answerCallbackQuery = Some m
   \<Longrightarrow> callback_query env uid data b = b\<lparr>calls := calls b @ [(answerCallbackQuery, Some m)]\<rparr>"
  by (simp add: callback_query_def callback_query_async_def asyncErrorHandler_def and_then_def
        chat_rejected)

lemma acked_maps [simp]:
  "userSessions (acked b) = userSessions b" "userWallets (acked b) = userWallets b"
  "calls (acked b) = calls b @ [(answerCallbackQuery, None)]"
  by (simp_all add: acked_def)

lemma callback_switched:
  assumes "telegram env (calls b) answerCallbackQuery = None"
    and "\<not> startsWith data ''refresh_''" and "\<not> startsWith data ''sell_token_''"
    and "\<not> startsWith data ''buy_token_''"
  shows "callback_query_async env uid data b = callback_switch env uid data (acked b)"
  using assms
  by (simp add: callback_query_async_def and_then_def chat_delivered acked_def)

lemma switch_cancel:
  "callback_switch env uid ''cancel'' b
     = chat env (sendMessage OperationCancelled) (delete_session uid b)"
  by (simp add: callback_switch_def)

lemma buy_choice_switch:
  assumes "data \<in> set [''buy_1'', ''buy_2'', ''buy_5'', ''buy_10'', ''buy_50'']"
  shows "callback_switch env uid data b = (Returned, handleBuyAmountChoice env uid data b)"
proof -
  consider "data = ''buy_1''" | "data = ''buy_2''" | "data = ''buy_5''" | "data = ''buy_10''"
    | "data = ''buy_50''"
    using assms by auto
  then show ?thesis by cases (simp_all add: callback_switch_def)
qed


lemma switch_confirm:
  "callback_switch env uid ''confirm_buy'' b = (Returned, handleConfirmBuy env uid b)"
  "callback_switch env uid ''confirm_sell'' b = (Returned, handleConfirmSell env uid b)"
  by (simp_all add: callback_switch_def)

lemma not_prefixed:
  assumes "data \<in> set [''cancel'', ''confirm_buy'', ''confirm_sell'', ''buy_1'', ''buy_2'',
      ''buy_5'', ''buy_10'', ''buy_50'', ''buy_custom'', ''sell_25'', ''sell_50'', ''sell_75'',
      ''sell_100'', ''sell_custom'']"
  shows "\<not> startsWith data ''refresh_'' \<and> \<not> startsWith data ''sell_token_''
         \<and> \<not> startsWith data ''buy_token_''"
  using assms by (auto simp: startsWith_def)

subsection \<open>Cancel\<close>

lemma delete_absent: "userSessions b uid = None \<Longrightarrow> delete_session uid b = b"
proof -
  assume a: "userSessions b uid = None"
  have "(userSessions b)(uid := None) = userSessions b"
    using a by (auto simp: fun_eq_iff)
  then show ?thesis by (simp add: delete_session_def)
qed

lemma cancel_sessions:
  "userSessions (callback_query env uid ''cancel'' b)
     = (case telegram env (calls b) answerCallbackQuery of
          None \<Rightarrow> (userSessions b)(uid := None)
        | Some m \<Rightarrow> userSessions b)"
proof (cases "telegram env (calls b) answerCallbackQuery")
  case None
  have "callback_query_async env uid ''cancel'' b
          = chat env (sendMessage OperationCancelled) (delete_session uid (acked b))"
    using None by (simp add: callback_switched not_prefixed switch_cancel)
  then show ?thesis
    using None by (simp add: callback_query_def handler_sessions delete_session_def)
next
  case (Some m)
  then show ?thesis by (simp add: callback_rejected)
qed

lemma cancel_wallets: "userWallets (callback_query env uid ''cancel'' b) = userWallets b"
proof (cases "telegram env (calls b) answerCallbackQuery")
  case None
  have "callback_query_async env uid ''cancel'' b
          = chat env (sendMessage OperationCancelled) (delete_session uid (acked b))"
    using None by (simp add: callback_switched not_prefixed switch_cancel)
  then show ?thesis
    by (simp add: callback_query_def handler_wallets delete_session_def)
next
  case (Some m)
  then show ?thesis by (simp add: callback_rejected)
qed

text \<open>
  Claim C9. Pressing cancel when the user has no session leaves both maps as they were,
  whatever the Telegram client answers; when the client accepts the acknowledgement and
  the text "Operation cancelled." the handler returns normally having made those two
  calls; it throws only when the client rejects a call. The cancel case deletes the
  session before it sends anything, so running it twice leaves the same session map as
  running it once, and so do two presses when the first was acknowledged.
\<close>

theorem cancel_without_session_is_noop:
  "(userSessions b uid = None \<longrightarrow>
      userSessions (callback_query env uid ''cancel'' b) = userSessions b
      \<and> userWallets (callback_query env uid ''cancel'' b) = userWallets b)
   \<and> (userSessions b uid = None
        \<and> telegram env (calls b) answerCallbackQuery = None
        \<and> telegram env (calls b @ [(answerCallbackQuery, None)]) (sendMessage OperationCancelled)
            = None \<longrightarrow>
      callback_query_async env uid ''cancel'' b =
        (Returned, b\<lparr>calls := calls b @ [(answerCallbackQuery, None),
                                         (sendMessage OperationCancelled, None)]\<rparr>))
   \<and> (fst (callback_query_async env uid ''cancel'' b) = Returned
       \<or> (\<exists>h c m. telegram env h c = Some m
             \<and> fst (callback_query_async env uid ''cancel'' b) = Thrown (Error m)))
   \<and> userSessions (snd (callback_switch env' uid ''cancel''
                          (snd (callback_switch env uid ''cancel'' b))))
       = userSessions (snd (callback_switch env uid ''cancel'' b))
   \<and> (telegram env (calls b) answerCallbackQuery = None \<longrightarrow>
        userSessions (callback_query env' uid ''cancel'' (callback_query env uid ''cancel'' b))
          = userSessions (callback_query env uid ''cancel'' b))"
proof (intro conjI impI)
  assume a: "userSessions b uid = None"
  have "(userSessions b)(uid := None) = userSessions b"
    using a by (auto simp: fun_eq_iff)
  then show "userSessions (callback_query env uid ''cancel'' b) = userSessions b"
    by (simp add: cancel_sessions split: option.splits)
next
  show "userWallets (callback_query env uid ''cancel'' b) = userWallets b"
    by (rule cancel_wallets)
next
  assume a: "userSessions b uid = None
        \<and> telegram env (calls b) answerCallbackQuery = None
        \<and> telegram env (calls b @ [(answerCallbackQuery, None)]) (sendMessage OperationCancelled)
            = None"
  have d: "delete_session uid (acked b) = acked b"
    using a by (simp add: delete_absent)
  have "callback_query_async env uid ''cancel'' b
          = chat env (sendMessage OperationCancelled) (acked b)"
    using a d by (simp add: callback_switched not_prefixed switch_cancel)
  then show "callback_query_async env uid ''cancel'' b =
        (Returned, b\<lparr>calls := calls b @ [(answerCallbackQuery, None),
                                         (sendMessage OperationCancelled, None)]\<rparr>)"
    using a by (simp add: chat_delivered acked_def)
next
  show "fst (callback_query_async env uid ''cancel'' b) = Returned
       \<or> (\<exists>h c m. telegram env h c = Some m
             \<and> fst (callback_query_async env uid ''cancel'' b) = Thrown (Error m))"
  proof (cases "telegram env (calls b) answerCallbackQuery")
    case (Some m)
    then have "fst (callback_query_async env uid ''cancel'' b) = Thrown (Error m)"
      by (simp add: callback_query_async_def and_then_def chat_rejected)
    then show ?thesis using Some by blast
  next
    case None
    have e: "callback_query_async env uid ''cancel'' b
          = chat env (sendMessage OperationCancelled) (delete_session uid (acked b))"
      using None by (simp add: callback_switched not_prefixed switch_cancel)
    show ?thesis
    proof (cases "telegram env (calls (delete_session uid (acked b)))
                    (sendMessage OperationCancelled)")
      case None
      then show ?thesis by (simp add: e chat_delivered)
    next
      case (Some m)
      then have "fst (callback_query_async env uid ''cancel'' b) = Thrown (Error m)"
        by (simp add: e chat_rejected)
      then show ?thesis using Some by blast
    qed
  qed
next
  show "userSessions (snd (callback_switch env' uid ''cancel''
                          (snd (callback_switch env uid ''cancel'' b))))
       = userSessions (snd (callback_switch env uid ''cancel'' b))"
    by (simp add: switch_cancel delete_session_def)
next
  assume a: "telegram env (calls b) answerCallbackQuery = None"
  show "userSessions (callback_query env' uid ''cancel'' (callback_query env uid ''cancel'' b))
          = userSessions (callback_query env uid ''cancel'' b)"
    using a by (simp add: cancel_sessions [of env'] cancel_sessions [of env uid b]
                  split: option.splits)
qed

theorem cancel_without_session_is_noop_witness:
  "userSessions (callback_query all_up alice ''cancel'' bot0) = userSessions bot0
   \<and> callback_query_async all_up alice ''cancel'' bot0 =
        (Returned, bot0\<lparr>calls := calls bot0 @ [(answerCallbackQuery, None),
                                               (sendMessage OperationCancelled, None)]\<rparr>)
   \<and> userSessions (callback_query telegram_down alice ''cancel'' bot0) = userSessions bot0"
  using cancel_without_session_is_noop [of bot0 alice all_up all_up]
    cancel_without_session_is_noop [of bot0 alice telegram_down all_up]
  by (simp add: bot0_def all_up_def)

subsection \<open>Fixed buy amounts\<close>

lemma buy_choice_staged:
  assumes "userSessions b uid = Some s" and "state s = Some BUY_AMOUNT"
    and "data \<noteq> ''buy_custom''"
  shows "userSessions (handleBuyAmountChoice env uid data b) uid
           = Some (s\<lparr>monAmount := index_opt (split_on CHR ''_'' data) 1\<rparr>)"
  using assms
  by (simp add: handleBuyAmountChoice_def handler_sessions handleBuyAmountChoice_async_def
        Let_def set_session_def split: option.splits)

lemma buy_amount_data:
  assumes "amt \<in> set [''1'', ''2'', ''5'', ''10'', ''50'']"
  shows "index_opt (split_on CHR ''_'' (''buy_'' @ amt)) 1 = Some amt"
    and "''buy_'' @ amt \<noteq> ''buy_custom''"
    and "''buy_'' @ amt \<in> set [''buy_1'', ''buy_2'', ''buy_5'', ''buy_10'', ''buy_50'']"
  using assms by (auto simp: index_opt_def)

text \<open>
  Claim C8. In state \<open>BUY_AMOUNT\<close>, \<open>handleBuyAmountChoice\<close> for one of the five fixed
  amounts (1, 2, 5, 10, 50) stores that amount as \<open>monAmount\<close> and changes nothing else of
  the session, whether or not its message is delivered; a button press reaches the
  handler when the client accepts the acknowledgement; on every path the state is still
  \<open>BUY_AMOUNT\<close> and \<open>tokenAddress\<close> and \<open>tokenInfo\<close> are as before.
\<close>

theorem fixed_buy_amount_staged:
  assumes "userSessions b uid = Some s" and "state s = Some BUY_AMOUNT"
    and "amt \<in> set [''1'', ''2'', ''5'', ''10'', ''50'']"
  shows "userSessions (handleBuyAmountChoice env uid (''buy_'' @ amt) b) uid
           = Some (s\<lparr>monAmount := Some amt\<rparr>)
       \<and> (telegram env (calls b) answerCallbackQuery = None \<longrightarrow>
            userSessions (callback_query env uid (''buy_'' @ amt) b) uid
              = Some (s\<lparr>monAmount := Some amt\<rparr>))
       \<and> (\<exists>s'. userSessions (callback_query env uid (''buy_'' @ amt) b) uid = Some s'
               \<and> state s' = Some BUY_AMOUNT \<and> tokenAddress s' = tokenAddress s
               \<and> tokenInfo s' = tokenInfo s)"
proof -
  note d = buy_amount_data [OF assms(3)]
  have h: "userSessions (handleBuyAmountChoice env uid (''buy_'' @ amt) b') uid
             = Some (s\<lparr>monAmount := Some amt\<rparr>)"
    if "userSessions b' uid = Some s" for b'
    using buy_choice_staged [OF that assms(2) d(2)] by (simp only: d(1))
  have p: "\<not> startsWith (''buy_'' @ amt) ''refresh_''
           \<and> \<not> startsWith (''buy_'' @ amt) ''sell_token_''
           \<and> \<not> startsWith (''buy_'' @ amt) ''buy_token_''"
    using d(3) by (intro not_prefixed) auto
  have q: "userSessions (callback_query env uid (''buy_'' @ amt) b) uid
              = Some (s\<lparr>monAmount := Some amt\<rparr>)"
    if a: "telegram env (calls b) answerCallbackQuery = None"
  proof -
    have "callback_query_async env uid (''buy_'' @ amt) b
            = callback_switch env uid (''buy_'' @ amt) (acked b)"
      using a p by (intro callback_switched) blast+
    then have "callback_query_async env uid (''buy_'' @ amt) b
            = (Returned, handleBuyAmountChoice env uid (''buy_'' @ amt) (acked b))"
      by (simp only: buy_choice_switch [OF d(3)])
    then show ?thesis
      using h [of "acked b"] assms(1)
      by (simp only: callback_query_def handler_sessions snd_conv acked_maps)
  qed
  have r: "\<exists>s'. userSessions (callback_query env uid (''buy_'' @ amt) b) uid = Some s'
               \<and> state s' = Some BUY_AMOUNT \<and> tokenAddress s' = tokenAddress s
               \<and> tokenInfo s' = tokenInfo s"
  proof (cases "telegram env (calls b) answerCallbackQuery")
    case None
    then show ?thesis using q assms(2) by simp
  next
    case (Some m)
    then show ?thesis using assms(1,2) by (simp add: callback_rejected)
  qed
  show ?thesis using h [OF assms(1)] q r by blast
qed

theorem fixed_buy_amount_staged_witness:
  "userSessions
     (handleBuyAmountChoice telegram_down alice ''buy_10''
        (bot0\<lparr>userSessions := [alice \<mapsto> buy_session token0 tkn]\<rparr>)) alice
   = Some ((buy_session token0 tkn)\<lparr>monAmount := Some ''10''\<rparr>)"
  using fixed_buy_amount_staged
    [of "bot0\<lparr>userSessions := [alice \<mapsto> buy_session token0 tkn]\<rparr>" alice
        "buy_session token0 tkn" "''10''" telegram_down]
  by (simp add: buy_session_def)

subsection \<open>Percentage of the balance\<close>









subsection \<open>Custom amounts\<close>


lemma js_le_not_gt: "js_le x y \<Longrightarrow> \<not> js_gt x y"
  by (simp add: js_le_def js_gt_def)













lemma sell_state_fields:
  assumes "session_inv s" and "state s = Some SELL_AMOUNT \<or> state s = Some SELL_CUSTOM_AMOUNT"
  shows "\<exists>bal ti. tokenBalance s = Some bal \<and> tokenInfo s = Some ti
                  \<and> js_gt (parseFloat bal) (Finite 0)"
  using assms by (auto simp: session_inv_def split: option.splits)




subsection \<open>Confirmation\<close>






lemma confirm_dispatch:
  assumes "telegram env (calls b) answerCallbackQuery = None"
  shows "callback_query env uid ''confirm_buy'' b = handleConfirmBuy env uid (acked b)"
    and "callback_query env uid ''confirm_sell'' b = handleConfirmSell env uid (acked b)"
proof -
  have "callback_query_async env uid ''confirm_buy'' b
          = callback_switch env uid ''confirm_buy'' (acked b)"
    using assms by (intro callback_switched) (simp_all add: startsWith_def)
  then show "callback_query env uid ''confirm_buy'' b = handleConfirmBuy env uid (acked b)"
    by (simp add: callback_query_def switch_confirm handler_returned)
  have "callback_query_async env uid ''confirm_sell'' b
          = callback_switch env uid ''confirm_sell'' (acked b)"
    using assms by (intro callback_switched) (simp_all add: startsWith_def)
  then show "callback_query env uid ''confirm_sell'' b = handleConfirmSell env uid (acked b)"
    by (simp add: callback_query_def switch_confirm handler_returned)
qed





text \<open>
  Claim C2 at a failing input. Alice is in state \<open>SELL_AMOUNT\<close> and presses a stale
  "Confirm" button of an earlier purchase. The confirmation handler tests only that a
  session exists: it sends the processing text, calls the swap engine without an
  amount, reports the failure and deletes the sell session.
\<close>

theorem stale_confirm_buy_deletes_sell_session:
  "session_state selling alice = Some SELL_AMOUNT
   \<and> userSessions (callback_query all_up alice ''confirm_buy'' selling) alice = None
   \<and> calls (callback_query all_up alice ''confirm_buy'' selling)
       = calls selling @
         [(answerCallbackQuery, None),
          (sendMessage (ProcessingPurchase ''TKN'' None), None),
          (editMessageText (TransactionFailed (Error ''Failed to buy token: invalid value'')),
           None)]"
proof -
  have a: "telegram all_up h c = None" for h c
    by (simp add: all_up_def)
  have b: "buyToken all_up k t None = Inl (Error ''Failed to buy token: invalid value'')"
    for k t
    by (simp add: buyToken_def all_up_def)
  have "callback_query all_up alice ''confirm_buy'' selling
          = handleConfirmBuy all_up alice (acked selling)"
    by (simp add: confirm_dispatch a)
  then show ?thesis
    using selling_state
    by (simp add: session_state_def handleConfirmBuy_def handler_silent
          handleConfirmBuy_async_def sell_session_def all_up_chat and_then_def try_catch_def
          b delete_session_def tkn_def acked_def)
qed

subsection \<open>Address text\<close>

lemma address_not_command:
  assumes "is_address (trim raw)"
  shows "raw \<noteq> [] \<and> \<not> startsWith raw ''/''"
proof -
  have "raw \<noteq> []"
    using assms by (auto simp: is_address_def trim_def)
  moreover have "\<not> startsWith raw ''/''"
  proof
    assume "startsWith raw ''/''"
    then obtain rest where r: "raw = CHR ''/'' # rest"
      by (cases raw) (simp_all add: startsWith_def)
    have "\<not> is_ws CHR ''/''"
      by (simp add: is_ws_def)
    then have "trim raw = CHR ''/'' # rev (dropWhile is_ws (rev rest))"
      by (simp add: trim_def r dropWhile_append3)
    with assms show False
      by (simp add: is_address_def)
  qed
  ultimately show ?thesis by simp
qed

lemma address_routed:
  assumes "is_address (trim raw)"
  shows "on_message_async env uid (Some raw) b =
     (case userWallets b uid of
        None \<Rightarrow> chat env (sendMessage WALLET_NOT_FOUND) b
      | Some w \<Rightarrow>
          if session_state b uid = Some BUY_TOKEN
            then (Returned, handleBuyTokenAddress env uid raw b)
          else if session_state b uid = Some SELL_TOKEN
            then (Returned, handleSellTokenAddress env uid raw b)
          else (Returned, handleContractAddressInput env uid (trim raw) b))"
  using address_not_command [OF assms] assms
  by (simp add: on_message_async_def Let_def split: option.splits)

lemma lookup_read_only:
  "userSessions (handleContractAddressInput env uid t b) = userSessions b"
  "userWallets (handleContractAddressInput env uid t b) = userWallets b"
  by (auto simp: handleContractAddressInput_def handler_sessions handler_wallets
        handleContractAddressInput_async_def chat_def and_then_def try_catch_def
        split: option.splits sum.splits)

lemma lookup_presented:
  assumes "userWallets b uid = Some w" and "\<forall>h c. telegram env h c = None"
    and "getTokenInfo env t = Inr ti" and "getTokenBalance env (address w) t = Inr tb"
    and "getBalance env (address w) = Inr mon"
  shows "calls (handleContractAddressInput env uid t b) =
           calls b @ [(sendMessage FetchingToken, None),
                      (editMessageText
                         (TokenFound ti (scan_token env t) (formattedBalance tb) mon), None)]"
  using assms
  by (simp add: handleContractAddressInput_def asyncErrorHandler_def
        handleContractAddressInput_async_def chat_def and_then_def try_catch_def)

lemma buy_address_found:
  assumes "is_address (trim raw)" and "session_state b uid = Some BUY_TOKEN"
    and "telegram env (calls b) (sendMessage FetchingToken) = None"
    and "getTokenInfo env (trim raw) = Inr ti"
  shows "userSessions (handleBuyTokenAddress env uid raw b)
           = (userSessions b)(uid \<mapsto> buy_session (trim raw) ti)"
  using assms
  by (simp add: handleBuyTokenAddress_def handler_sessions handleBuyTokenAddress_async_def
        Let_def chat_delivered and_then_def try_catch_def set_session_def chat_def
        split: option.splits)

lemma buy_address_not_found:
  assumes "is_address (trim raw)" and "session_state b uid = Some BUY_TOKEN"
    and "telegram env (calls b) (sendMessage FetchingToken) \<noteq> None
         \<or> (\<exists>e. getTokenInfo env (trim raw) = Inl e)"
  shows "userSessions (handleBuyTokenAddress env uid raw b) = userSessions b"
  using assms
  by (auto simp: handleBuyTokenAddress_def handler_sessions handleBuyTokenAddress_async_def
        Let_def and_then_def try_catch_def chat_def split: option.splits)

text \<open>
  Claim C3, as amended. For a text whose trimmed form matches the address pattern:
  without a wallet the listener only sends the wallet-not-found text and changes
  neither store; with a wallet and no session state it runs the token lookup, which
  changes neither store, and when the client accepts every call and the three reads
  succeed the calls made are the loading text and its edit into the token view; with a
  wallet and state \<open>BUY_TOKEN\<close> the session becomes the \<open>BUY_AMOUNT\<close> session holding the
  address and the token information when the loading text is delivered and the token
  information is read, and the session store is unchanged when the loading text is
  rejected or the read fails.
\<close>

theorem address_text_routing:
  assumes "is_address (trim raw)"
  shows "(userWallets b uid = None \<longrightarrow>
            on_message_async env uid (Some raw) b = chat env (sendMessage WALLET_NOT_FOUND) b
            \<and> userSessions (on_message env uid (Some raw) b) = userSessions b
            \<and> userWallets (on_message env uid (Some raw) b) = userWallets b)
       \<and> (userWallets b uid = Some w \<and> session_state b uid = None \<longrightarrow>
            on_message env uid (Some raw) b = handleContractAddressInput env uid (trim raw) b
            \<and> userSessions (on_message env uid (Some raw) b) = userSessions b
            \<and> userWallets (on_message env uid (Some raw) b) = userWallets b
            \<and> ((\<forall>h c. telegram env h c = None) \<and> getTokenInfo env (trim raw) = Inr ti
                 \<and> getTokenBalance env (address w) (trim raw) = Inr tb
                 \<and> getBalance env (address w) = Inr mon \<longrightarrow>
                 calls (on_message env uid (Some raw) b) =
                   calls b @ [(sendMessage FetchingToken, None),
                              (editMessageText
                                 (TokenFound ti (scan_token env (trim raw))
                                    (formattedBalance tb) mon), None)]))
       \<and> (userWallets b uid = Some w \<and> session_state b uid = Some BUY_TOKEN \<longrightarrow>
            (telegram env (calls b) (sendMessage FetchingToken) = None
               \<and> getTokenInfo env (trim raw) = Inr ti \<longrightarrow>
               userSessions (on_message env uid (Some raw) b)
                 = (userSessions b)(uid \<mapsto> buy_session (trim raw) ti)
               \<and> state (buy_session (trim raw) ti) = Some BUY_AMOUNT
               \<and> tokenAddress (buy_session (trim raw) ti) = Some (trim raw)
               \<and> tokenInfo (buy_session (trim raw) ti) = Some ti)
            \<and> (telegram env (calls b) (sendMessage FetchingToken) \<noteq> None
                 \<or> (\<exists>e. getTokenInfo env (trim raw) = Inl e) \<longrightarrow>
               userSessions (on_message env uid (Some raw) b) = userSessions b))"
proof (intro conjI impI)
  assume "userWallets b uid = None"
  then have r: "on_message_async env uid (Some raw) b
                  = chat env (sendMessage WALLET_NOT_FOUND) b"
    by (simp add: address_routed [OF assms])
  show "on_message_async env uid (Some raw) b = chat env (sendMessage WALLET_NOT_FOUND) b"
    by (rule r)
  show "userSessions (on_message env uid (Some raw) b) = userSessions b"
    by (simp add: on_message_def handler_sessions r)
  show "userWallets (on_message env uid (Some raw) b) = userWallets b"
    by (simp add: on_message_def handler_wallets r)
next
  assume a: "userWallets b uid = Some w \<and> session_state b uid = None"
  then show r: "on_message env uid (Some raw) b
                  = handleContractAddressInput env uid (trim raw) b"
    by (simp add: on_message_def address_routed [OF assms] handler_returned)
  show "userSessions (on_message env uid (Some raw) b) = userSessions b"
    by (simp add: r lookup_read_only)
  show "userWallets (on_message env uid (Some raw) b) = userWallets b"
    by (simp add: r lookup_read_only)
  assume "(\<forall>h c. telegram env h c = None) \<and> getTokenInfo env (trim raw) = Inr ti
            \<and> getTokenBalance env (address w) (trim raw) = Inr tb
            \<and> getBalance env (address w) = Inr mon"
  then show "calls (on_message env uid (Some raw) b) =
               calls b @ [(sendMessage FetchingToken, None),
                          (editMessageText
                             (TokenFound ti (scan_token env (trim raw))
                                (formattedBalance tb) mon), None)]"
    using a by (simp add: r lookup_presented)
next
  assume a: "userWallets b uid = Some w \<and> session_state b uid = Some BUY_TOKEN"
  then have r: "on_message env uid (Some raw) b = handleBuyTokenAddress env uid raw b"
    by (simp add: on_message_def address_routed [OF assms] handler_returned)
  {
    assume "telegram env (calls b) (sendMessage FetchingToken) = None
              \<and> getTokenInfo env (trim raw) = Inr ti"
    then show "userSessions (on_message env uid (Some raw) b)
                 = (userSessions b)(uid \<mapsto> buy_session (trim raw) ti)"
      using a by (simp add: r buy_address_found [OF assms])
  }
  {
    assume "telegram env (calls b) (sendMessage FetchingToken) \<noteq> None
              \<or> (\<exists>e. getTokenInfo env (trim raw) = Inl e)"
    then show "userSessions (on_message env uid (Some raw) b) = userSessions b"
      using a buy_address_not_found [OF assms, of b uid env] by (simp add: r)
  }
qed (simp_all add: buy_session_def)

theorem address_text_routing_witness:
  "is_address (trim token0)
   \<and> userSessions (on_message all_up alice (Some token0) buying) alice
       = Some (buy_session token0 tkn)
   \<and> session_state (on_message all_up alice (Some token0) buying) alice = Some BUY_AMOUNT"
proof -
  have t: "is_address (trim token0)" "trim token0 = token0"
    using token0_facts by simp_all
  have s: "session_state buying alice = Some BUY_TOKEN"
    using buying_state by (simp add: session_state_def new_session_def)
  have w: "userWallets buying alice = Some wallet0"
    using buying_state by simp
  have a: "telegram all_up h c = None" for h c
    by (simp add: all_up_def)
  from address_text_routing [OF t(1), of buying alice all_up wallet0 tkn] w s a all_up_token t
  show ?thesis
    by (simp add: session_state_def buy_session_def)
qed

text \<open>
  Against claim C3 as stated: alice has a wallet and is in state \<open>BUY_TOKEN\<close>; she sends
  an address while the token contract cannot be read. The lookup throws after the
  loading text, the error is shown, and the session is still in state \<open>BUY_TOKEN\<close>,
  without an address or token information.
\<close>

theorem failed_lookup_keeps_buy_token_counterexample:
  "is_address (trim token0)
   \<and> userWallets buying alice = Some wallet0
   \<and> session_state buying alice = Some BUY_TOKEN
   \<and> userSessions (on_message chain_down alice (Some token0) buying) alice
       = Some (new_session BUY_TOKEN)
   \<and> session_state (on_message chain_down alice (Some token0) buying) alice = Some BUY_TOKEN"
proof -
  have t: "is_address (trim token0)" "trim token0 = token0"
    using token0_facts by simp_all
  have s: "session_state buying alice = Some BUY_TOKEN"
    using buying_state by (simp add: session_state_def new_session_def)
  have w: "userWallets buying alice = Some wallet0"
    using buying_state by simp
  have g: "getTokenInfo chain_down token0 = Inl (Error ''Failed to get token info: call revert exception'')"
    by (simp add: getTokenInfo_def chain_down_def all_up_def)
  have r: "on_message chain_down alice (Some token0) buying
             = handleBuyTokenAddress chain_down alice token0 buying"
    using w s by (simp add: on_message_def address_routed [OF t(1)] handler_returned)
  have "userSessions (handleBuyTokenAddress chain_down alice token0 buying)
          = userSessions buying"
    by (rule buy_address_not_found) (use g t s in auto)
  then show ?thesis
    using t w s buying_state by (simp add: r session_state_def new_session_def)
qed

subsection \<open>The balance snapshot of a sell session\<close>

lemma js_le_or_gt: "x \<noteq> NaN \<Longrightarrow> js_le x (Finite 0) \<longleftrightarrow> \<not> js_gt x (Finite 0)"
  by (cases x) (auto simp: js_le_def js_gt_def)

lemma sell_button_positive:
  assumes "userWallets b uid = Some w" and "getTokenInfo env t = Inr ti"
    and "getTokenBalance env (address w) t = Inr tb"
    and "js_gt (parseFloat (balance tb)) (Finite 0)"
  shows "userSessions (handleSellToken env uid t b)
           = (userSessions b)(uid \<mapsto> sell_session t ti (balance tb))"
  using assms js_le_not_gt [of "parseFloat (balance tb)" "Finite 0"]
  by (auto simp: handleSellToken_def handler_sessions handleSellToken_async_def
        try_catch_def chat_def set_session_def split: option.splits)

lemma sell_button_empty:
  assumes "userWallets b uid = Some w" and "getTokenInfo env t = Inr ti"
    and "getTokenBalance env (address w) t = Inr tb"
    and "\<not> js_gt (parseFloat (balance tb)) (Finite 0)"
  shows "handleSellToken_async env uid t b =
           try_catch (chat env (sendMessage (NoTokensToSell (symbol ti))) b)
             (\<lambda>e. chat env (sendMessage (ErrorFetchingToken e)))"
    and "userSessions (handleSellToken env uid t b) = userSessions b"
proof -
  have le: "js_le (parseFloat (balance tb)) (Finite 0)"
    using assms(4) js_le_or_gt [OF getTokenBalance_number [OF assms(3)]] by simp
  show 1: "handleSellToken_async env uid t b =
           try_catch (chat env (sendMessage (NoTokensToSell (symbol ti))) b)
             (\<lambda>e. chat env (sendMessage (ErrorFetchingToken e)))"
    using assms(1-3) le by (simp add: handleSellToken_async_def)
  show "userSessions (handleSellToken env uid t b) = userSessions b"
    by (simp add: handleSellToken_def handler_sessions 1 try_catch_def chat_def
          split: option.splits)
qed

lemma sell_button_only:
  "userSessions (handleSellToken env uid t b) = userSessions b
   \<or> (\<exists>w ti tb. userWallets b uid = Some w \<and> getTokenInfo env t = Inr ti
        \<and> getTokenBalance env (address w) t = Inr tb
        \<and> js_gt (parseFloat (balance tb)) (Finite 0)
        \<and> userSessions (handleSellToken env uid t b)
            = (userSessions b)(uid \<mapsto> sell_session t ti (balance tb)))"
proof (cases "userWallets b uid")
  case None
  then show ?thesis
    by (simp add: handleSellToken_def handler_sessions handleSellToken_async_def)
next
  case (Some w)
  show ?thesis
  proof (cases "getTokenInfo env t")
    case (Inl e)
    then show ?thesis
      using Some
      by (simp add: handleSellToken_def handler_sessions handleSellToken_async_def
            try_catch_def)
  next
    case (Inr ti)
    show ?thesis
    proof (cases "getTokenBalance env (address w) t")
      case (Inl e)
      then show ?thesis
        using Some Inr
        by (simp add: handleSellToken_def handler_sessions handleSellToken_async_def
              try_catch_def)
    next
      case tb: (Inr tb)
      show ?thesis
      proof (cases "js_gt (parseFloat (balance tb)) (Finite 0)")
        case True
        then show ?thesis
          using sell_button_positive [OF Some Inr tb] Some Inr tb by blast
      next
        case False
        then show ?thesis
          using sell_button_empty(2) [OF Some Inr tb] by blast
      qed
    qed
  qed
qed

lemma sell_address_positive:
  assumes "is_address (trim raw)" and "session_state b uid = Some SELL_TOKEN"
    and "userWallets b uid = Some w" and "getTokenInfo env (trim raw) = Inr ti"
    and "getTokenBalance env (address w) (trim raw) = Inr tb"
    and "telegram env (calls b) (sendMessage FetchingToken) = None"
    and "js_gt (parseFloat (balance tb)) (Finite 0)"
  shows "userSessions (handleSellTokenAddress env uid raw b)
           = (userSessions b)(uid \<mapsto> sell_session (trim raw) ti (balance tb))"
  using assms js_le_not_gt [of "parseFloat (balance tb)" "Finite 0"]
  by (auto simp: handleSellTokenAddress_def handler_sessions handleSellTokenAddress_async_def
        Let_def and_then_def try_catch_def chat_def set_session_def split: option.splits)

lemma sell_address_empty:
  assumes "is_address (trim raw)" and "session_state b uid = Some SELL_TOKEN"
    and "userWallets b uid = Some w" and "getTokenInfo env (trim raw) = Inr ti"
    and "getTokenBalance env (address w) (trim raw) = Inr tb"
    and "telegram env (calls b) (sendMessage FetchingToken) = None"
    and "\<not> js_gt (parseFloat (balance tb)) (Finite 0)"
  shows "handleSellTokenAddress_async env uid raw b =
           try_catch
             (chat env (editMessageText (NoTokensToSell (symbol ti)))
                (b\<lparr>calls := calls b @ [(sendMessage FetchingToken, None)]\<rparr>))
             (\<lambda>e. chat env (editMessageText (ErrorFetchingToken e)))"
    and "userSessions (handleSellTokenAddress env uid raw b) = userSessions b"
proof -
  have le: "js_le (parseFloat (balance tb)) (Finite 0)"
    using assms(7) js_le_or_gt [OF getTokenBalance_number [OF assms(5)]] by simp
  show 1: "handleSellTokenAddress_async env uid raw b =
           try_catch
             (chat env (editMessageText (NoTokensToSell (symbol ti)))
                (b\<lparr>calls := calls b @ [(sendMessage FetchingToken, None)]\<rparr>))
             (\<lambda>e. chat env (editMessageText (ErrorFetchingToken e)))"
    using assms(1-6) le
    by (simp add: handleSellTokenAddress_async_def Let_def chat_delivered and_then_def)
  show "userSessions (handleSellTokenAddress env uid raw b) = userSessions b"
    by (simp add: handleSellTokenAddress_def handler_sessions 1 try_catch_def chat_def
          split: option.splits)
qed

lemma sell_address_only:
  "userSessions (handleSellTokenAddress env uid raw b) = userSessions b
   \<or> (\<exists>w ti tb. session_state b uid = Some SELL_TOKEN \<and> is_address (trim raw)
        \<and> userWallets b uid = Some w \<and> getTokenInfo env (trim raw) = Inr ti
        \<and> getTokenBalance env (address w) (trim raw) = Inr tb
        \<and> js_gt (parseFloat (balance tb)) (Finite 0)
        \<and> userSessions (handleSellTokenAddress env uid raw b)
            = (userSessions b)(uid \<mapsto> sell_session (trim raw) ti (balance tb)))"
proof (cases "is_address (trim raw) \<and> session_state b uid = Some SELL_TOKEN
              \<and> telegram env (calls b) (sendMessage FetchingToken) = None")
  case False
  then show ?thesis
    by (auto simp: handleSellTokenAddress_def handler_sessions
          handleSellTokenAddress_async_def Let_def and_then_def chat_def lookup_read_only
          split: option.splits)
next
  case t: True
  show ?thesis
  proof (cases "userWallets b uid")
    case None
    then show ?thesis
      using t
      by (simp add: handleSellTokenAddress_def handler_sessions
            handleSellTokenAddress_async_def Let_def and_then_def chat_delivered
            try_catch_def)
  next
    case (Some w)
    show ?thesis
    proof (cases "getTokenInfo env (trim raw)")
      case (Inl e)
      then show ?thesis
        using t Some
        by (simp add: handleSellTokenAddress_def handler_sessions
              handleSellTokenAddress_async_def Let_def and_then_def chat_delivered
              try_catch_def)
    next
      case (Inr ti)
      show ?thesis
      proof (cases "getTokenBalance env (address w) (trim raw)")
        case (Inl e)
        then show ?thesis
          using t Some Inr
          by (simp add: handleSellTokenAddress_def handler_sessions
                handleSellTokenAddress_async_def Let_def and_then_def chat_delivered
                try_catch_def)
      next
        case tb: (Inr tb)
        show ?thesis
        proof (cases "js_gt (parseFloat (balance tb)) (Finite 0)")
          case True
          then have "userSessions (handleSellTokenAddress env uid raw b)
                       = (userSessions b)(uid \<mapsto> sell_session (trim raw) ti (balance tb))"
            using sell_address_positive [OF _ _ Some Inr tb] t by simp
          then show ?thesis
            using t Some Inr tb True
            by (intro disjI2 exI [of _ w] exI [of _ ti] exI [of _ tb]) simp
        next
          case False
          then show ?thesis
            using sell_address_empty(2) [OF _ _ Some Inr tb] t by simp
        qed
      qed
    qed
  qed
qed

text \<open>
  Claim C10. Every session in state \<open>SELL_AMOUNT\<close> of a run holds a balance that parses
  to a number above zero. The two entry paths, the sell button of a token view and an
  address entered in state \<open>SELL_TOKEN\<close>, store the session with the fetched balance
  when that balance parses above zero; otherwise they send (on the address path: edit
  the loading text into) the "no tokens to sell" text and leave the session store
  unchanged. Whatever the collaborators answer, the only change either path makes to
  the session store is to store such a session with a balance that parses above zero.
\<close>

theorem sell_amount_has_positive_balance:
  "(reachable b \<and> userSessions b uid = Some s \<and> state s = Some SELL_AMOUNT \<longrightarrow>
      (\<exists>bal. tokenBalance s = Some bal \<and> js_gt (parseFloat bal) (Finite 0)))
   \<and> (userWallets b uid = Some w \<and> getTokenInfo env t = Inr ti
        \<and> getTokenBalance env (address w) t = Inr tb \<longrightarrow>
        (if js_gt (parseFloat (balance tb)) (Finite 0)
         then userSessions (handleSellToken env uid t b)
                = (userSessions b)(uid \<mapsto> sell_session t ti (balance tb))
         else handleSellToken_async env uid t b =
                try_catch (chat env (sendMessage (NoTokensToSell (symbol ti))) b)
                  (\<lambda>e. chat env (sendMessage (ErrorFetchingToken e)))
              \<and> userSessions (handleSellToken env uid t b) = userSessions b))
   \<and> (is_address (trim raw) \<and> session_state b uid = Some SELL_TOKEN
        \<and> userWallets b uid = Some w \<and> getTokenInfo env (trim raw) = Inr ti
        \<and> getTokenBalance env (address w) (trim raw) = Inr tb
        \<and> telegram env (calls b) (sendMessage FetchingToken) = None \<longrightarrow>
        (if js_gt (parseFloat (balance tb)) (Finite 0)
         then userSessions (handleSellTokenAddress env uid raw b)
                = (userSessions b)(uid \<mapsto> sell_session (trim raw) ti (balance tb))
         else handleSellTokenAddress_async env uid raw b =
                try_catch
                  (chat env (editMessageText (NoTokensToSell (symbol ti)))
                     (b\<lparr>calls := calls b @ [(sendMessage FetchingToken, None)]\<rparr>))
                  (\<lambda>e. chat env (editMessageText (ErrorFetchingToken e)))
              \<and> userSessions (handleSellTokenAddress env uid raw b) = userSessions b))
   \<and> (userSessions (handleSellToken env uid t b) \<noteq> userSessions b \<longrightarrow>
        (\<exists>w ti tb. userWallets b uid = Some w \<and> getTokenInfo env t = Inr ti
           \<and> getTokenBalance env (address w) t = Inr tb
           \<and> js_gt (parseFloat (balance tb)) (Finite 0)
           \<and> userSessions (handleSellToken env uid t b)
               = (userSessions b)(uid \<mapsto> sell_session t ti (balance tb))))
   \<and> (userSessions (handleSellTokenAddress env uid raw b) \<noteq> userSessions b \<longrightarrow>
        (\<exists>w ti tb. session_state b uid = Some SELL_TOKEN \<and> is_address (trim raw)
           \<and> userWallets b uid = Some w \<and> getTokenInfo env (trim raw) = Inr ti
           \<and> getTokenBalance env (address w) (trim raw) = Inr tb
           \<and> js_gt (parseFloat (balance tb)) (Finite 0)
           \<and> userSessions (handleSellTokenAddress env uid raw b)
               = (userSessions b)(uid \<mapsto> sell_session (trim raw) ti (balance tb))))
   \<and> state (sell_session t ti bal) = Some SELL_AMOUNT
   \<and> tokenBalance (sell_session t ti bal) = Some bal"
proof (intro conjI impI)
  assume "reachable b \<and> userSessions b uid = Some s \<and> state s = Some SELL_AMOUNT"
  then have "session_inv s" and "state s = Some SELL_AMOUNT"
    using reachable_inv store_invD by blast+
  then show "\<exists>bal. tokenBalance s = Some bal \<and> js_gt (parseFloat bal) (Finite 0)"
    using sell_state_fields [of s] by blast
next
  assume "userWallets b uid = Some w \<and> getTokenInfo env t = Inr ti
            \<and> getTokenBalance env (address w) t = Inr tb"
  then have a: "userWallets b uid = Some w" "getTokenInfo env t = Inr ti"
    "getTokenBalance env (address w) t = Inr tb"
    by blast+
  show "if js_gt (parseFloat (balance tb)) (Finite 0)
         then userSessions (handleSellToken env uid t b)
                = (userSessions b)(uid \<mapsto> sell_session t ti (balance tb))
         else handleSellToken_async env uid t b =
                try_catch (chat env (sendMessage (NoTokensToSell (symbol ti))) b)
                  (\<lambda>e. chat env (sendMessage (ErrorFetchingToken e)))
              \<and> userSessions (handleSellToken env uid t b) = userSessions b"
  proof (cases "js_gt (parseFloat (balance tb)) (Finite 0)")
    case True
    show ?thesis
      unfolding if_P [OF True] by (rule sell_button_positive [OF a True])
  next
    case False
    show ?thesis
      unfolding if_not_P [OF False]
      by (rule conjI [OF sell_button_empty(1) [OF a False] sell_button_empty(2) [OF a False]])
  qed
next
  assume "is_address (trim raw) \<and> session_state b uid = Some SELL_TOKEN
        \<and> userWallets b uid = Some w \<and> getTokenInfo env (trim raw) = Inr ti
        \<and> getTokenBalance env (address w) (trim raw) = Inr tb
        \<and> telegram env (calls b) (sendMessage FetchingToken) = None"
  then have a: "is_address (trim raw)" "session_state b uid = Some SELL_TOKEN"
    "userWallets b uid = Some w" "getTokenInfo env (trim raw) = Inr ti"
    "getTokenBalance env (address w) (trim raw) = Inr tb"
    "telegram env (calls b) (sendMessage FetchingToken) = None"
    by blast+
  show "if js_gt (parseFloat (balance tb)) (Finite 0)
         then userSessions (handleSellTokenAddress env uid raw b)
                = (userSessions b)(uid \<mapsto> sell_session (trim raw) ti (balance tb))
         else handleSellTokenAddress_async env uid raw b =
                try_catch
                  (chat env (editMessageText (NoTokensToSell (symbol ti)))
                     (b\<lparr>calls := calls b @ [(sendMessage FetchingToken, None)]\<rparr>))
                  (\<lambda>e. chat env (editMessageText (ErrorFetchingToken e)))
              \<and> userSessions (handleSellTokenAddress env uid raw b) = userSessions b"
  proof (cases "js_gt (parseFloat (balance tb)) (Finite 0)")
    case True
    show ?thesis
      unfolding if_P [OF True] by (rule sell_address_positive [OF a True])
  next
    case False
    show ?thesis
      unfolding if_not_P [OF False]
      by (rule conjI [OF sell_address_empty(1) [OF a False] sell_address_empty(2) [OF a False]])
  qed
next
  assume "userSessions (handleSellToken env uid t b) \<noteq> userSessions b"
  then show "\<exists>w ti tb. userWallets b uid = Some w \<and> getTokenInfo env t = Inr ti
           \<and> getTokenBalance env (address w) t = Inr tb
           \<and> js_gt (parseFloat (balance tb)) (Finite 0)
           \<and> userSessions (handleSellToken env uid t b)
               = (userSessions b)(uid \<mapsto> sell_session t ti (balance tb))"
    using sell_button_only [of env uid t b] by blast
next
  assume "userSessions (handleSellTokenAddress env uid raw b) \<noteq> userSessions b"
  then show "\<exists>w ti tb. session_state b uid = Some SELL_TOKEN \<and> is_address (trim raw)
           \<and> userWallets b uid = Some w \<and> getTokenInfo env (trim raw) = Inr ti
           \<and> getTokenBalance env (address w) (trim raw) = Inr tb
           \<and> js_gt (parseFloat (balance tb)) (Finite 0)
           \<and> userSessions (handleSellTokenAddress env uid raw b)
               = (userSessions b)(uid \<mapsto> sell_session (trim raw) ti (balance tb))"
    using sell_address_only [of env uid raw b] by blast
qed (simp_all add: sell_session_def)

theorem sell_amount_has_positive_balance_witness:
  "reachable selling
   \<and> userSessions selling alice = Some (sell_session token0 tkn ''10.0'')
   \<and> state (sell_session token0 tkn ''10.0'') = Some SELL_AMOUNT
   \<and> js_gt (parseFloat ''10.0'') (Finite 0)
   \<and> userSessions (handleSellToken all_up alice token0 bot0) alice
       = Some (sell_session token0 tkn ''10.0'')"
proof -
  have r: "reachable selling" using reachable_examples by blast
  have s: "userSessions selling alice = Some (sell_session token0 tkn ''10.0'')"
    using selling_state by blast
  have st: "state (sell_session token0 tkn ''10.0'') = Some SELL_AMOUNT"
    "tokenBalance (sell_session token0 tkn ''10.0'') = Some ''10.0''"
    by (simp_all add: sell_session_def)
  obtain tb where tb: "getTokenBalance all_up (address wallet0) token0 = Inr tb"
    "balance tb = ''10.0''"
    using all_up_balance by blast
  have w: "userWallets bot0 alice = Some wallet0"
    by (simp add: bot0_def)
  have p: "js_gt (parseFloat ''10.0'') (Finite 0)"
    using sell_amount_has_positive_balance
            [where b = selling and uid = alice and s = "sell_session token0 tkn ''10.0''"]
      r s st
    by simp
  have "userSessions (handleSellToken all_up alice token0 bot0)
          = (userSessions bot0)(alice \<mapsto> sell_session token0 tkn ''10.0'')"
    using sell_amount_has_positive_balance
            [where b = bot0 and uid = alice and w = wallet0 and env = all_up and t = token0
               and ti = tkn and tb = tb]
      w all_up_token tb p
    by simp
  then show ?thesis using r s st p by simp
qed

end
